theory Spec2Isabelle
  imports Complex_Main "HOL-Library.AList"
begin

section \<open>ResearchBook: the expert merge and the two orchestrator operations\<close>

text \<open>
  A shallow embedding of \<^verbatim>\<open>src/researchbook.py\<close>. The two Neo4j databases and the
  LLM endpoint are outside the program: what a query or an HTTP request returns is a
  parameter of the model, and what the Python makes of it is translated line by line.
  An exception is a value \<open>Inl err\<close> of a sum type; a Python \<^verbatim>\<open>dict\<close> whose keys are
  fixed by the code is a record of optional fields, \<open>None\<close> standing for an absent key,
  so that \<^verbatim>\<open>d["k"]\<close> on an absent key is the \<^verbatim>\<open>KeyError\<close> the interpreter raises.
\<close>

subsection \<open>Errors and numbers\<close>

datatype error =
    KeyError string
  | DatabaseError string

text \<open>
  \<^verbatim>\<open>combined_score\<close> holds a Python \<^verbatim>\<open>int\<close> (a publication count) or a Python
  \<^verbatim>\<open>float\<close> (as soon as \<^verbatim>\<open>* 0.5\<close> took part). A float is modelled by the rational
  it denotes: the only floats that arise are halves of sums of counts, which binary
  floating point represents exactly as long as the counts stay below \<open>2 ^ 52\<close>, so no
  rounding is involved for the counts a database returns.
\<close>

datatype pynum = PyInt int | PyFloat rat

fun num_val :: "pynum \<Rightarrow> rat" where
  "num_val (PyInt i) = of_int i"
| "num_val (PyFloat r) = r"

fun py_add :: "pynum \<Rightarrow> pynum \<Rightarrow> pynum" where
  "py_add (PyInt a) (PyInt b) = PyInt (a + b)"
| "py_add a b = PyFloat (num_val a + num_val b)"

fun py_mul :: "pynum \<Rightarrow> pynum \<Rightarrow> pynum" where
  "py_mul (PyInt a) (PyInt b) = PyInt (a * b)"
| "py_mul a b = PyFloat (num_val a * num_val b)"

subsection \<open>Expert records\<close>

text \<open>
  The dicts built by \<^verbatim>\<open>_search_experts_db1\<close> and \<^verbatim>\<open>_search_experts_db2\<close> and
  extended by \<^verbatim>\<open>_merge_expert_results\<close>. The type \<open>'n\<close> is whatever \<^verbatim>\<open>p.name\<close>
  yields (a string, or Python's \<^verbatim>\<open>None\<close> for a node without the property): the merge
  only hashes and compares names.
\<close>

record 'n expert =
  name :: "'n option"
  orcid_id :: "string option option"
  relevant_publications :: "int option"
  sample_publications :: "string list option"
  organizations :: "string list option"
  departments :: "string list option"
  source :: "string option"
  roles :: "string list option"
  relevant_theses :: "int option"
  sample_theses :: "string list option"
  thesis_roles :: "string list option"
  combined_score :: "pynum option"

definition empty_dict :: "'n expert" where
  "empty_dict =
     \<lparr>name = None, orcid_id = None, relevant_publications = None,
      sample_publications = None, organizations = None, departments = None,
      source = None, roles = None, relevant_theses = None, sample_theses = None,
      thesis_roles = None, combined_score = None\<rparr>"

text \<open>The rows of the two topic queries, as the Cypher \<^verbatim>\<open>RETURN\<close> clauses name them.\<close>

record 'n db1_row =
  row1_name :: 'n
  row1_orcid_id :: "string option"
  row1_relevant_pubs :: int
  row1_sample_pubs :: "string list"
  row1_organizations :: "string list"
  row1_departments :: "string list"

record 'n db2_row =
  row2_name :: 'n
  row2_roles :: "string list"
  row2_relevant_theses :: int
  row2_sample_theses :: "string list"

text \<open>The loop bodies of the two search adapters: one fresh dict for each row.\<close>

definition db1_expert :: "'n db1_row \<Rightarrow> 'n expert" where
  "db1_expert record =
     empty_dict
     \<lparr>name := Some (row1_name record),
      orcid_id := Some (row1_orcid_id record),
      relevant_publications := Some (row1_relevant_pubs record),
      sample_publications := Some (row1_sample_pubs record),
      organizations := Some (row1_organizations record),
      departments := Some (row1_departments record),
      source := Some ''database_1''\<rparr>"

definition db2_expert :: "'n db2_row \<Rightarrow> 'n expert" where
  "db2_expert record =
     empty_dict
     \<lparr>name := Some (row2_name record),
      roles := Some (row2_roles record),
      relevant_theses := Some (row2_relevant_theses record),
      sample_theses := Some (row2_sample_theses record),
      source := Some ''database_2''\<rparr>"

subsection \<open>\<^verbatim>\<open>_merge_expert_results\<close>\<close>

text \<open>
  \<^verbatim>\<open>merged\<close> is a Python dict, which keeps its keys in insertion order and keeps a
  key's position when its value is replaced: an association list under
  \<^const>\<open>AList.update\<close>. The Python stores references and mutates the input dicts; the
  adapters build a fresh dict for every row, so no two entries alias and passing
  values gives the same result.
\<close>

type_synonym 'n merged = "('n \<times> 'n expert) list"

text \<open>Lines 299--302: the body of the loop over \<^verbatim>\<open>db1_experts\<close>.\<close>

definition add_db1_expert :: "'n merged \<Rightarrow> 'n expert \<Rightarrow> error + 'n merged" where
  "add_db1_expert merged expert =
     (case name expert of
        None \<Rightarrow> Inl (KeyError ''name'')
      | Some n \<Rightarrow>
          (case relevant_publications expert of
             None \<Rightarrow> Inl (KeyError ''relevant_publications'')
           | Some pubs \<Rightarrow>
               Inr (AList.update n (expert\<lparr>combined_score := Some (PyInt pubs)\<rparr>) merged)))"

fun add_db1_experts :: "'n merged \<Rightarrow> 'n expert list \<Rightarrow> error + 'n merged" where
  "add_db1_experts merged [] = Inr merged"
| "add_db1_experts merged (expert # rest) =
     (case add_db1_expert merged expert of
        Inl err \<Rightarrow> Inl err
      | Inr merged' \<Rightarrow> add_db1_experts merged' rest)"

text \<open>Lines 305--316: the body of the loop over \<^verbatim>\<open>db2_experts\<close>.\<close>

definition add_db2_expert :: "'n merged \<Rightarrow> 'n expert \<Rightarrow> error + 'n merged" where
  "add_db2_expert merged expert =
     (case name expert of
        None \<Rightarrow> Inl (KeyError ''name'')
      | Some n \<Rightarrow>
          (case map_of merged n of
             Some entry \<Rightarrow>
               (case roles expert of
                  None \<Rightarrow> Inl (KeyError ''roles'')
                | Some rs \<Rightarrow>
               (case relevant_theses expert of
                  None \<Rightarrow> Inl (KeyError ''relevant_theses'')
                | Some theses \<Rightarrow>
               (case sample_theses expert of
                  None \<Rightarrow> Inl (KeyError ''sample_theses'')
                | Some samples \<Rightarrow>
               (case combined_score entry of
                  None \<Rightarrow> Inl (KeyError ''combined_score'')
                | Some score \<Rightarrow>
                    Inr (AList.update n
                      (entry\<lparr>thesis_roles := Some rs,
                             relevant_theses := Some theses,
                             sample_theses := Some samples,
                             combined_score :=
                               Some (py_add score (py_mul (PyInt theses) (PyFloat (1 / 2)))),
                             source := Some ''both_databases''\<rparr>)
                      merged)))))
           | None \<Rightarrow>
               (case relevant_theses expert of
                  None \<Rightarrow> Inl (KeyError ''relevant_theses'')
                | Some theses \<Rightarrow>
                    Inr (AList.update n
                      (expert\<lparr>combined_score :=
                                Some (py_mul (PyInt theses) (PyFloat (1 / 2)))\<rparr>)
                      merged))))"

fun add_db2_experts :: "'n merged \<Rightarrow> 'n expert list \<Rightarrow> error + 'n merged" where
  "add_db2_experts merged [] = Inr merged"
| "add_db2_experts merged (expert # rest) =
     (case add_db2_expert merged expert of
        Inl err \<Rightarrow> Inl err
      | Inr merged' \<Rightarrow> add_db2_experts merged' rest)"

text \<open>
  Line 319: \<^verbatim>\<open>sorted(merged.values(), key=lambda x: x["combined_score"], reverse=True)\<close>.
  Python computes the key of every element first (a \<^verbatim>\<open>KeyError\<close> if one lacks the
  field), then sorts stably with every comparison reversed: elements with equal keys
  keep their order. That is a stable ascending sort on the negated key.
\<close>

definition sorted_by_score :: "'n expert list \<Rightarrow> error + 'n expert list" where
  "sorted_by_score vals =
     (case those (map combined_score vals) of
        None \<Rightarrow> Inl (KeyError ''combined_score'')
      | Some keys \<Rightarrow>
          Inr (map snd (sort_key (\<lambda>p. - num_val (fst p)) (zip keys vals))))"

definition merge_expert_results ::
  "'n expert list \<Rightarrow> 'n expert list \<Rightarrow> error + 'n expert list" where
  "merge_expert_results db1_experts db2_experts =
     (case add_db1_experts [] db1_experts of
        Inl err \<Rightarrow> Inl err
      | Inr merged1 \<Rightarrow>
          (case add_db2_experts merged1 db2_experts of
             Inl err \<Rightarrow> Inl err
           | Inr merged \<Rightarrow> sorted_by_score (map snd merged)))"

subsection \<open>The LLM client: \<^verbatim>\<open>ai_query\<close>\<close>

text \<open>
  What \<^verbatim>\<open>requests.post\<close> is called with. The temperature \<^verbatim>\<open>0.3\<close> is kept as the
  decimal the source writes.
\<close>

record llm_request =
  req_url :: "string option"
  req_authorization :: string
  req_content_type :: string
  req_model :: string
  req_messages :: "(string \<times> string) list"
  req_max_tokens :: int
  req_temperature :: rat
  req_timeout :: int
  req_verify :: bool

text \<open>
  What the call can do inside the \<^verbatim>\<open>try\<close> block: \<^verbatim>\<open>requests.post\<close> raises (a
  transport failure, with the exception's text), or it returns a response with a
  status code; on that response \<^verbatim>\<open>response.json()\<close> and the indexing
  \<^verbatim>\<open>result['choices'][0]['message']['content']\<close> either yield the text or raise (a
  parse failure, again with the exception's text).
\<close>

datatype completion = Content string | Malformed string

datatype http_result = Http_response int completion | Request_failed string

text \<open>
  Python's \<^verbatim>\<open>str\<close> of an integer, as the f-string renders the status code.
  \<open>digit_char\<close> is only applied to numbers below ten.
\<close>

definition digit_char :: "nat \<Rightarrow> char" where
  "digit_char d = ''0123456789'' ! d"

function str_nat :: "nat \<Rightarrow> string" where
  "str_nat n = (if n < 10 then [digit_char n] else str_nat (n div 10) @ [digit_char (n mod 10)])"
  by pat_completeness auto
termination
  by (relation "measure id") auto

definition str_int :: "int \<Rightarrow> string" where
  "str_int i = (if i < 0 then ''-'' @ str_nat (nat (- i)) else str_nat (nat i))"

definition nl :: string where
  "nl = [CHR 0x0A]"

subsection \<open>Rows and records of the person lookup\<close>

record affiliation =
  aff_organization :: "string option"
  aff_role :: "string option"
  aff_department :: "string option"
  aff_start_year :: "int option"
  aff_end_year :: "int option"

record person_row =
  prow_name :: "string option"
  prow_orcid_id :: "string option"
  prow_given_names :: "string option"
  prow_family_name :: "string option"
  prow_pub_count :: "int option"
  prow_affiliations :: "affiliation list"
  prow_total_publications :: int

record profile =
  profile_name :: "string option"
  profile_orcid_id :: "string option"
  profile_given_names :: "string option"
  profile_family_name :: "string option"
  profile_orcid_publication_count :: "int option"
  profile_total_publications :: int
  profile_affiliations :: "affiliation list"

record thesis_row =
  trow_person_name :: "string option"
  trow_relationship_type :: "string option"
  trow_thesis_title :: "string option"
  trow_thesis_type :: "string option"
  trow_keywords :: "string list option"
  trow_abstract :: "string option"

record activity =
  activity_person_name :: "string option"
  activity_role :: "string option"
  activity_thesis_title :: "string option"
  activity_thesis_type :: "string option"
  activity_keywords :: "string list"
  activity_abstract :: string

text \<open>
  The dict \<^verbatim>\<open>combined_data\<close> of \<^verbatim>\<open>lookup_person\<close>; \<^verbatim>\<open>ai_analysis\<close> is absent
  until the last step sets it. The key \<^verbatim>\<open>name\<close> is the field \<open>query_name\<close>.
\<close>

record person_result =
  query_name :: string
  found_in_db1 :: bool
  found_in_db2 :: bool
  researcher_data :: "profile list"
  thesis_data :: "activity list"
  ai_analysis :: "string option"

text \<open>The dict returned by \<^verbatim>\<open>find_expert\<close>.\<close>

record 'n expert_result =
  topic :: string
  experts_found :: nat
  db1_matches :: nat
  db2_matches :: nat
  expert_list :: "'n expert list"
  ai_ranking :: string

subsection \<open>The orchestrator object\<close>

text \<open>
  \<^verbatim>\<open>self\<close>: the two drivers, as what each of the four Cypher queries returns for
  its parameters (rows, or the exception the driver raises), the LLM configuration
  read from the environment (\<^verbatim>\<open>os.getenv\<close> yields \<^verbatim>\<open>None\<close> for an unset variable),
  the endpoint's behaviour, and \<^verbatim>\<open>json.dumps(..., indent=2)\<close> at the three types it
  is applied to.
\<close>

record 'n researchbook =
  db1_person_query :: "string \<Rightarrow> error + person_row list"
  db2_thesis_query :: "string \<Rightarrow> error + thesis_row list"
  db1_topic_query :: "string \<Rightarrow> int \<Rightarrow> error + 'n db1_row list"
  db2_topic_query :: "string \<Rightarrow> int \<Rightarrow> error + 'n db2_row list"
  llm_url :: "string option"
  llm_key :: "string option"
  llm_model :: string
  llm_post :: "llm_request \<Rightarrow> http_result"
  dumps_profiles :: "profile list \<Rightarrow> string"
  dumps_activities :: "activity list \<Rightarrow> string"
  dumps_experts :: "'n expert list \<Rightarrow> string"

text \<open>
  Lines 39--53: the headers, the payload and the other arguments of \<^verbatim>\<open>requests.post\<close>.
  The f-string renders a missing key as \<^verbatim>\<open>None\<close>.
\<close>

definition ai_request :: "'n researchbook \<Rightarrow> string \<Rightarrow> int \<Rightarrow> llm_request" where
  "ai_request self prompt max_tokens =
     \<lparr>req_url = llm_url self,
      req_authorization = ''Bearer '' @ (case llm_key self of None \<Rightarrow> ''None'' | Some k \<Rightarrow> k),
      req_content_type = ''application/json'',
      req_model = llm_model self,
      req_messages = [(''user'', prompt)],
      req_max_tokens = max_tokens,
      req_temperature = 3 / 10,
      req_timeout = 30,
      req_verify = False\<rparr>"

text \<open>
  Lines 37--60. The second component is the list of requests sent so far, extended by
  the one this call makes: every call of \<^verbatim>\<open>ai_query\<close> calls \<^verbatim>\<open>requests.post\<close> once.
  \<^verbatim>\<open>except Exception\<close> catches whatever the \<^verbatim>\<open>try\<close> block raises.
\<close>

definition ai_query ::
  "'n researchbook \<Rightarrow> llm_request list \<Rightarrow> string \<Rightarrow> int \<Rightarrow> string \<times> llm_request list" where
  "ai_query self sent prompt max_tokens =
     (let request = ai_request self prompt max_tokens
      in
      ((case llm_post self request of
          Http_response status_code result \<Rightarrow>
            (if status_code = 200
             then (case result of
                     Content text \<Rightarrow> text
                   | Malformed e \<Rightarrow> ''AI Error: '' @ e)
             else ''AI Error: '' @ str_int status_code)
        | Request_failed e \<Rightarrow> ''AI Error: '' @ e),
       sent @ [request]))"

text \<open>Lines 93--132 and 134--163: the two person adapters.\<close>

definition truthy :: "string option \<Rightarrow> bool" where
  "truthy v \<longleftrightarrow> (case v of None \<Rightarrow> False | Some s \<Rightarrow> s \<noteq> [])"

definition py_or :: "'a list option \<Rightarrow> 'a list \<Rightarrow> 'a list" where
  "py_or v d = (case v of None \<Rightarrow> d | Some s \<Rightarrow> if s = [] then d else s)"

definition researcher_profile :: "person_row \<Rightarrow> profile" where
  "researcher_profile record =
     \<lparr>profile_name = prow_name record,
      profile_orcid_id = prow_orcid_id record,
      profile_given_names = prow_given_names record,
      profile_family_name = prow_family_name record,
      profile_orcid_publication_count = prow_pub_count record,
      profile_total_publications = prow_total_publications record,
      profile_affiliations =
        filter (\<lambda>aff. truthy (aff_organization aff)) (prow_affiliations record)\<rparr>"

definition get_researcher_profile_db1 ::
  "'n researchbook \<Rightarrow> string \<Rightarrow> error + profile list" where
  "get_researcher_profile_db1 self qname =
     (case db1_person_query self qname of
        Inl err \<Rightarrow> Inl err
      | Inr result \<Rightarrow> Inr (map researcher_profile result))"

definition thesis_activity :: "thesis_row \<Rightarrow> activity" where
  "thesis_activity record =
     \<lparr>activity_person_name = trow_person_name record,
      activity_role = trow_relationship_type record,
      activity_thesis_title = trow_thesis_title record,
      activity_thesis_type = trow_thesis_type record,
      activity_keywords = py_or (trow_keywords record) [],
      activity_abstract = py_or (trow_abstract record) []\<rparr>"

definition get_thesis_activities_db2 ::
  "'n researchbook \<Rightarrow> string \<Rightarrow> error + activity list" where
  "get_thesis_activities_db2 self qname =
     (case db2_thesis_query self qname of
        Inl err \<Rightarrow> Inl err
      | Inr result \<Rightarrow> Inr (map thesis_activity result))"

text \<open>Lines 165--188.\<close>

definition create_person_analysis_prompt ::
  "'n researchbook \<Rightarrow> person_result \<Rightarrow> string" where
  "create_person_analysis_prompt self person_data =
     concat
       [nl,
        ''        Analyze this researcher profile and provide a comprehensive summary:'', nl,
        nl,
        ''        RESEARCHER: '', query_name person_data, nl,
        ''        '', nl,
        ''        DATABASE 1 (Research Profile):'', nl,
        ''        '', dumps_profiles self (researcher_data person_data), nl,
        ''        '', nl,
        ''        DATABASE 2 (Thesis Activities):  '', nl,
        ''        '', dumps_activities self (thesis_data person_data), nl,
        ''        '', nl,
        ''        Please provide:'', nl,
        ''        1. Research expertise areas (based on thesis topics, roles, publications)'', nl,
        ''        2. Career progression summary (positions, institutions, timeline)'', nl,
        ''        3. Academic involvement (supervision, examination, collaboration patterns)'', nl,
        ''        4. Key strengths and specializations'', nl,
        ''        5. Overall academic profile assessment'', nl,
        ''        '', nl,
        ''        Keep response concise but comprehensive (max 500 words).'', nl,
        ''        '']"

text \<open>Lines 76--82: the dict \<^verbatim>\<open>combined_data\<close> before the AI summary is attached.\<close>

definition combined_person_data ::
  "string \<Rightarrow> profile list \<Rightarrow> activity list \<Rightarrow> person_result" where
  "combined_person_data qname db1_profile db2_profile =
     \<lparr>query_name = qname,
      found_in_db1 = (length db1_profile > 0),
      found_in_db2 = (length db2_profile > 0),
      researcher_data = db1_profile,
      thesis_data = db2_profile,
      ai_analysis = None\<rparr>"

text \<open>
  Lines 62--91. The \<^verbatim>\<open>print\<close> to the console is left out: no result depends on it.
  \<^verbatim>\<open>ai_query\<close> is called with its default \<^verbatim>\<open>max_tokens=1000\<close>. An exception of a
  database adapter is not caught and ends the call.
\<close>

definition lookup_person ::
  "'n researchbook \<Rightarrow> llm_request list \<Rightarrow> string \<Rightarrow>
     error + (person_result \<times> llm_request list)" where
  "lookup_person self sent qname =
     (case get_researcher_profile_db1 self qname of
        Inl err \<Rightarrow> Inl err
      | Inr db1_profile \<Rightarrow>
          (case get_thesis_activities_db2 self qname of
             Inl err \<Rightarrow> Inl err
           | Inr db2_profile \<Rightarrow>
               (let combined_data = combined_person_data qname db1_profile db2_profile
                in
                if found_in_db1 combined_data \<or> found_in_db2 combined_data
                then
                  (let ai_prompt = create_person_analysis_prompt self combined_data;
                       reply = ai_query self sent ai_prompt 1000
                   in Inr (combined_data\<lparr>ai_analysis := Some (fst reply)\<rparr>, snd reply))
                else
                  Inr (combined_data
                         \<lparr>ai_analysis := Some ''Person not found in either database''\<rparr>,
                       sent))))"

text \<open>Lines 222--258 and 260--292: the two topic adapters.\<close>

definition search_experts_db1 ::
  "'n researchbook \<Rightarrow> string \<Rightarrow> int \<Rightarrow> error + 'n expert list" where
  "search_experts_db1 self topic_text limit =
     (case db1_topic_query self topic_text limit of
        Inl err \<Rightarrow> Inl err
      | Inr result \<Rightarrow> Inr (map db1_expert result))"

definition search_experts_db2 ::
  "'n researchbook \<Rightarrow> string \<Rightarrow> int \<Rightarrow> error + 'n expert list" where
  "search_experts_db2 self topic_text limit =
     (case db2_topic_query self topic_text limit of
        Inl err \<Rightarrow> Inl err
      | Inr result \<Rightarrow> Inr (map db2_expert result))"

text \<open>Lines 321--338.\<close>

definition create_expert_ranking_prompt ::
  "'n researchbook \<Rightarrow> string \<Rightarrow> 'n expert list \<Rightarrow> string" where
  "create_expert_ranking_prompt self topic_text experts =
     concat
       [nl,
        ''        Rank and analyze these experts for the topic: '',
          [CHR 0x22], topic_text, [CHR 0x22], nl,
        ''        '', nl,
        ''        EXPERTS FOUND:'', nl,
        ''        '', dumps_experts self experts, nl,
        ''        '', nl,
        ''        Please provide:'', nl,
        ''        1. Top 5 experts ranked by relevance to '',
          [CHR 0x22], topic_text, [CHR 0x22], nl,
        ''        2. For each expert, explain why they'', [CHR 0x27],
          ''re qualified (publications, thesis work, roles)'', nl,
        ''        3. Identify any collaboration patterns or research networks'', nl,
        ''        4. Suggest which expert would be best for: media interviews, research collaboration, student supervision'', nl,
        ''        '', nl,
        ''        Format as a clear ranking with explanations.'', nl,
        ''        '']"

text \<open>
  Lines 190--220. The console \<^verbatim>\<open>print\<close> is left out; \<open>limit\<close> is the argument as
  passed (the Python default is 10). \<^verbatim>\<open>if all_experts:\<close> tests the list for being
  non-empty.
\<close>

definition find_expert ::
  "'n researchbook \<Rightarrow> llm_request list \<Rightarrow> string \<Rightarrow> int \<Rightarrow>
     error + ('n expert_result \<times> llm_request list)" where
  "find_expert self sent topic_text limit =
     (case search_experts_db1 self topic_text limit of
        Inl err \<Rightarrow> Inl err
      | Inr db1_experts \<Rightarrow>
          (case search_experts_db2 self topic_text limit of
             Inl err \<Rightarrow> Inl err
           | Inr db2_experts \<Rightarrow>
               (case merge_expert_results db1_experts db2_experts of
                  Inl err \<Rightarrow> Inl err
                | Inr all_experts \<Rightarrow>
                    (let reply =
                       (if all_experts \<noteq> []
                        then
                          (let ranking_prompt =
                             create_expert_ranking_prompt self topic_text all_experts
                           in ai_query self sent ranking_prompt 1500)
                        else (''No experts found for topic: '' @ topic_text, sent))
                     in
                     Inr (\<lparr>topic = topic_text,
                           experts_found = length all_experts,
                           db1_matches = length db1_experts,
                           db2_matches = length db2_experts,
                           expert_list = all_experts,
                           ai_ranking = fst reply\<rparr>,
                          snd reply)))))"

section \<open>Auxiliary definitions for the proofs\<close>

text \<open>
  On the dicts the adapters build, no step of the merge can raise, and the two loops
  are folds of the pure steps below. \<open>score_of\<close> reads the sort key of an entry;
  \<open>merged_ok\<close> is the invariant of the dict \<^verbatim>\<open>merged\<close>: no key twice, every value
  filed under its own name, scored, and tagged with one of the three sources.
  \<open>db1_row_of\<close> and \<open>db2_row_of\<close> build rows for the concrete examples.
\<close>

definition score_of :: "'n expert \<Rightarrow> rat" where
  "score_of e = (case combined_score e of None \<Rightarrow> 0 | Some c \<Rightarrow> num_val c)"

definition scored_db1 :: "'n db1_row \<Rightarrow> 'n expert" where
  "scored_db1 r = (db1_expert r)\<lparr>combined_score := Some (PyInt (row1_relevant_pubs r))\<rparr>"

definition scored_db2 :: "'n db2_row \<Rightarrow> 'n expert" where
  "scored_db2 r =
     (db2_expert r)\<lparr>combined_score := Some (PyFloat (of_int (row2_relevant_theses r) / 2))\<rparr>"

definition absorb_db2 :: "'n expert \<Rightarrow> 'n db2_row \<Rightarrow> 'n expert" where
  "absorb_db2 e r =
     e\<lparr>thesis_roles := Some (row2_roles r),
       relevant_theses := Some (row2_relevant_theses r),
       sample_theses := Some (row2_sample_theses r),
       combined_score := Some (PyFloat (score_of e + of_int (row2_relevant_theses r) / 2)),
       source := Some ''both_databases''\<rparr>"

definition step_db1 :: "'n db1_row \<Rightarrow> 'n merged \<Rightarrow> 'n merged" where
  "step_db1 r m = AList.update (row1_name r) (scored_db1 r) m"

definition step_db2 :: "'n db2_row \<Rightarrow> 'n merged \<Rightarrow> 'n merged" where
  "step_db2 r m =
     AList.update (row2_name r)
       (case map_of m (row2_name r) of None \<Rightarrow> scored_db2 r | Some e \<Rightarrow> absorb_db2 e r) m"

definition entry_ok :: "'n \<Rightarrow> 'n expert \<Rightarrow> bool" where
  "entry_ok k v \<longleftrightarrow>
     name v = Some k \<and> combined_score v \<noteq> None \<and>
     source v \<in> {Some ''database_1'', Some ''database_2'', Some ''both_databases''}"

definition merged_ok :: "'n merged \<Rightarrow> bool" where
  "merged_ok m \<longleftrightarrow> distinct (map fst m) \<and> (\<forall>(k, v) \<in> set m. entry_ok k v)"

definition merged_rows :: "'n db1_row list \<Rightarrow> 'n db2_row list \<Rightarrow> 'n merged" where
  "merged_rows rows1 rows2 = fold step_db2 rows2 (fold step_db1 rows1 [])"

definition score_at :: "'n merged \<Rightarrow> 'n \<Rightarrow> rat" where
  "score_at m n = (case map_of m n of None \<Rightarrow> 0 | Some e \<Rightarrow> score_of e)"

definition db1_row_of :: "'n \<Rightarrow> int \<Rightarrow> 'n db1_row" where
  "db1_row_of n pubs =
     \<lparr>row1_name = n, row1_orcid_id = None, row1_relevant_pubs = pubs,
      row1_sample_pubs = [], row1_organizations = [], row1_departments = []\<rparr>"

definition db2_row_of :: "'n \<Rightarrow> int \<Rightarrow> 'n db2_row" where
  "db2_row_of n theses =
     \<lparr>row2_name = n, row2_roles = [], row2_relevant_theses = theses,
      row2_sample_theses = []\<rparr>"

definition db1_fields_absent :: "'n expert \<Rightarrow> bool" where
  "db1_fields_absent e \<longleftrightarrow>
     orcid_id e = None \<and> relevant_publications e = None \<and> sample_publications e = None \<and>
     organizations e = None \<and> departments e = None"

definition db2_fields_absent :: "'n expert \<Rightarrow> bool" where
  "db2_fields_absent e \<longleftrightarrow>
     roles e = None \<and> relevant_theses e = None \<and> sample_theses e = None \<and>
     thesis_roles e = None"

text \<open>
  For the orchestrator: \<open>ai_failure\<close> tells the replies of the endpoint that are
  failures, \<open>tagged_error\<close> the strings that \<^verbatim>\<open>ai_query\<close> returns for them, and
  \<open>demo_book\<close> is a small orchestrator object for the concrete examples: database 1
  knows one person matching Anders and one expert A, database 2 one expert A.
\<close>

fun ai_failure :: "http_result \<Rightarrow> bool" where
  "ai_failure (Request_failed e) = True"
| "ai_failure (Http_response status_code (Malformed e)) = True"
| "ai_failure (Http_response status_code (Content text)) = (status_code \<noteq> 200)"

definition tagged_error :: "string \<Rightarrow> bool" where
  "tagged_error s \<longleftrightarrow> take 10 s = ''AI Error: ''"

definition anders_row :: person_row where
  "anders_row =
     \<lparr>prow_name = Some ''Anders Andersson'', prow_orcid_id = None, prow_given_names = None,
      prow_family_name = None, prow_pub_count = None, prow_affiliations = [],
      prow_total_publications = 7\<rparr>"

definition demo_book :: "(llm_request \<Rightarrow> http_result) \<Rightarrow> string researchbook" where
  "demo_book post =
     \<lparr>db1_person_query = (\<lambda>n. if n = ''Anders'' then Inr [anders_row] else Inr []),
      db2_thesis_query = (\<lambda>n. Inr []),
      db1_topic_query = (\<lambda>t l. Inr [db1_row_of ''A'' 4]),
      db2_topic_query = (\<lambda>t l. Inr [db2_row_of ''A'' 2]),
      llm_url = Some ''http://localhost/v1/chat/completions'',
      llm_key = None,
      llm_model = ''claude-sonnet-4'',
      llm_post = post,
      dumps_profiles = (\<lambda>ps. ''[]''),
      dumps_activities = (\<lambda>as. ''[]''),
      dumps_experts = (\<lambda>es. ''[]'')\<rparr>"

section \<open>The merge on adapter output\<close>

lemma py_add_float: "py_add s (PyFloat x) = PyFloat (num_val s + x)"
  by (cases s) simp_all

lemma add_db1_expert_row: "add_db1_expert m (db1_expert r) = Inr (step_db1 r m)"
  by (simp add: add_db1_expert_def db1_expert_def step_db1_def scored_db1_def)

lemma add_db1_experts_rows:
  "add_db1_experts m (map db1_expert rows) = Inr (fold step_db1 rows m)"
  by (induction rows arbitrary: m) (simp_all add: add_db1_expert_row)

lemma add_db2_expert_row:
  assumes "\<forall>(k, v) \<in> set m. combined_score v \<noteq> None"
  shows "add_db2_expert m (db2_expert r) = Inr (step_db2 r m)"
proof (cases "map_of m (row2_name r)")
  case None
  then show ?thesis
    by (simp add: add_db2_expert_def db2_expert_def step_db2_def scored_db2_def)
next
  case (Some e)
  then have "(row2_name r, e) \<in> set m" by (rule map_of_SomeD)
  with assms obtain c where c: "combined_score e = Some c" by fastforce
  show ?thesis using Some c
    by (simp add: add_db2_expert_def db2_expert_def step_db2_def absorb_db2_def
        score_of_def py_add_float)
qed

lemma set_update_subset: "set (AList.update k v m) \<subseteq> insert (k, v) (set m)"
  by (induction m) auto

lemma entry_ok_scored_db1: "entry_ok (row1_name r) (scored_db1 r)"
  by (simp add: entry_ok_def scored_db1_def db1_expert_def)

lemma entry_ok_scored_db2: "entry_ok (row2_name r) (scored_db2 r)"
  by (simp add: entry_ok_def scored_db2_def db2_expert_def)

lemma entry_ok_absorb: "entry_ok k e \<Longrightarrow> entry_ok k (absorb_db2 e r)"
  by (simp add: entry_ok_def absorb_db2_def)

lemma merged_ok_update:
  "merged_ok m \<Longrightarrow> entry_ok k v \<Longrightarrow> merged_ok (AList.update k v m)"
  unfolding merged_ok_def
  using set_update_subset [of k v m] by (auto simp: distinct_update)

lemma merged_ok_step_db1: "merged_ok m \<Longrightarrow> merged_ok (step_db1 r m)"
  by (simp add: step_db1_def merged_ok_update entry_ok_scored_db1)

lemma merged_ok_lookup: "merged_ok m \<Longrightarrow> map_of m k = Some e \<Longrightarrow> entry_ok k e"
  unfolding merged_ok_def by (auto dest: map_of_SomeD)

lemma merged_ok_step_db2: "merged_ok m \<Longrightarrow> merged_ok (step_db2 r m)"
  unfolding step_db2_def
  by (rule merged_ok_update)
     (auto split: option.splits intro: entry_ok_scored_db2 entry_ok_absorb merged_ok_lookup)

lemma merged_ok_fold_db1: "merged_ok m \<Longrightarrow> merged_ok (fold step_db1 rows m)"
  by (induction rows arbitrary: m) (simp_all add: merged_ok_step_db1)

lemma merged_ok_fold_db2: "merged_ok m \<Longrightarrow> merged_ok (fold step_db2 rows m)"
  by (induction rows arbitrary: m) (simp_all add: merged_ok_step_db2)

lemma merged_ok_Nil: "merged_ok []"
  by (simp add: merged_ok_def)

lemma add_db2_experts_rows:
  "merged_ok m \<Longrightarrow> add_db2_experts m (map db2_expert rows) = Inr (fold step_db2 rows m)"
proof (induction rows arbitrary: m)
  case Nil
  then show ?case by simp
next
  case (Cons r rows)
  from Cons.prems have "\<forall>(k, v) \<in> set m. combined_score v \<noteq> None"
    by (auto simp: merged_ok_def entry_ok_def)
  then have "add_db2_expert m (db2_expert r) = Inr (step_db2 r m)"
    by (rule add_db2_expert_row)
  with Cons.IH [OF merged_ok_step_db2 [OF Cons.prems]] show ?case by simp
qed

lemma keys_fold_db1:
  "fst ` set (fold step_db1 rows m) = fst ` set m \<union> row1_name ` set rows"
  by (induction rows arbitrary: m) (auto simp: step_db1_def dom_update)

lemma keys_fold_db2:
  "fst ` set (fold step_db2 rows m) = fst ` set m \<union> row2_name ` set rows"
  by (induction rows arbitrary: m) (auto simp: step_db2_def dom_update)

lemma keys_merged_rows:
  "fst ` set (merged_rows rows1 rows2) = row1_name ` set rows1 \<union> row2_name ` set rows2"
  by (simp add: merged_rows_def keys_fold_db1 keys_fold_db2)

lemma merged_ok_merged_rows: "merged_ok (merged_rows rows1 rows2)"
  by (simp add: merged_rows_def merged_ok_fold_db1 merged_ok_fold_db2 merged_ok_Nil)

lemma map_of_step_db1:
  "map_of (step_db1 r m) n = (if row1_name r = n then Some (scored_db1 r) else map_of m n)"
  by (simp add: step_db1_def update_conv')

lemma map_of_fold_db1:
  "map_of (fold step_db1 rows m) n =
     (case filter (\<lambda>r. row1_name r = n) rows of
        [] \<Rightarrow> map_of m n
      | r # rs \<Rightarrow> Some (scored_db1 (last (r # rs))))"
proof (induction rows arbitrary: m)
  case Nil
  then show ?case by simp
next
  case (Cons r rows)
  show ?case
    by (simp add: Cons.IH map_of_step_db1 split: list.splits)
qed

lemma map_of_step_db2:
  "map_of (step_db2 r m) n =
     (if row2_name r = n
      then Some (case map_of m n of None \<Rightarrow> scored_db2 r | Some e \<Rightarrow> absorb_db2 e r)
      else map_of m n)"
  by (auto simp: step_db2_def update_conv')

lemma map_of_fold_db2_other:
  "filter (\<lambda>r. row2_name r = n) rows = [] \<Longrightarrow> map_of (fold step_db2 rows m) n = map_of m n"
  by (induction rows arbitrary: m) (auto simp: map_of_step_db2 split: if_splits)

lemma map_of_fold_db2_once:
  "filter (\<lambda>r. row2_name r = n) rows = [r] \<Longrightarrow>
   map_of (fold step_db2 rows m) n =
     Some (case map_of m n of None \<Rightarrow> scored_db2 r | Some e \<Rightarrow> absorb_db2 e r)"
proof (induction rows arbitrary: m)
  case Nil
  then show ?case by simp
next
  case (Cons x rows)
  show ?case
  proof (cases "row2_name x = n")
    case True
    with Cons.prems have "x = r" and "filter (\<lambda>r. row2_name r = n) rows = []" by simp_all
    then show ?thesis
      using True by (simp add: map_of_fold_db2_other map_of_step_db2)
  next
    case False
    with Cons.prems have "filter (\<lambda>r. row2_name r = n) rows = [r]" by simp
    then show ?thesis
      using False by (simp add: Cons.IH map_of_step_db2)
  qed
qed

lemma score_of_scored_db1: "score_of (scored_db1 r) = of_int (row1_relevant_pubs r)"
  by (simp add: score_of_def scored_db1_def)

lemma score_of_scored_db2: "score_of (scored_db2 r) = of_int (row2_relevant_theses r) / 2"
  by (simp add: score_of_def scored_db2_def)

lemma score_of_absorb:
  "score_of (absorb_db2 e r) = score_of e + of_int (row2_relevant_theses r) / 2"
  by (simp add: score_of_def absorb_db2_def)

lemma score_at_step_db2:
  "score_at (step_db2 r m) n =
     score_at m n + (if row2_name r = n then of_int (row2_relevant_theses r) / 2 else 0)"
  by (simp add: score_at_def map_of_step_db2 score_of_scored_db2 score_of_absorb
      split: option.splits)

lemma score_at_fold_db2:
  "score_at (fold step_db2 rows m) n =
     score_at m n +
     of_int (sum_list (map row2_relevant_theses (filter (\<lambda>r. row2_name r = n) rows))) / 2"
  by (induction rows arbitrary: m) (simp_all add: score_at_step_db2 add_divide_distrib)

lemma score_at_fold_db1:
  "score_at (fold step_db1 rows []) n =
     (case filter (\<lambda>r. row1_name r = n) rows of
        [] \<Rightarrow> 0
      | r # rs \<Rightarrow> of_int (row1_relevant_pubs (last (r # rs))))"
  by (simp add: score_at_def map_of_fold_db1 score_of_scored_db1 split: list.splits)

lemma score_at_merged_rows:
  "score_at (merged_rows rows1 rows2) n =
     (case filter (\<lambda>r. row1_name r = n) rows1 of
        [] \<Rightarrow> 0
      | r # rs \<Rightarrow> of_int (row1_relevant_pubs (last (r # rs)))) +
     of_int (sum_list (map row2_relevant_theses (filter (\<lambda>r. row2_name r = n) rows2))) / 2"
  by (simp add: merged_rows_def score_at_fold_db2 score_at_fold_db1)

lemma insort_key_map_snd:
  "f' x = f (snd x) \<Longrightarrow> \<forall>z \<in> set zs. f' z = f (snd z) \<Longrightarrow>
   map snd (insort_key f' x zs) = insort_key f (snd x) (map snd zs)"
  by (induction zs) simp_all

lemma sort_key_zip_keys:
  "those (map combined_score vals) = Some keys \<Longrightarrow>
   (\<forall>(c, v) \<in> set (zip keys vals). combined_score v = Some c) \<and>
   map snd (sort_key (\<lambda>p. - num_val (fst p)) (zip keys vals)) =
     sort_key (\<lambda>v. - score_of v) vals"
proof (induction vals arbitrary: keys)
  case Nil
  then show ?case by simp
next
  case (Cons v vals)
  from Cons.prems obtain c ks where c: "combined_score v = Some c"
    and ks: "those (map combined_score vals) = Some ks" and keys: "keys = c # ks"
    by (auto split: option.splits)
  note IH = Cons.IH [OF ks]
  have "\<forall>z \<in> set (sort_key (\<lambda>p. - num_val (fst p)) (zip ks vals)).
          - num_val (fst z) = - score_of (snd z)"
    using IH by (auto simp: score_of_def)
  moreover have "- num_val (fst (c, v)) = - score_of (snd (c, v))"
    using c by (simp add: score_of_def)
  ultimately have
    "map snd (insort_key (\<lambda>p. - num_val (fst p)) (c, v)
        (sort_key (\<lambda>p. - num_val (fst p)) (zip ks vals))) =
     insort_key (\<lambda>v. - score_of v) (snd (c, v))
        (map snd (sort_key (\<lambda>p. - num_val (fst p)) (zip ks vals)))"
    by (intro insort_key_map_snd)
  then show ?case using IH c by (simp add: keys)
qed

lemma those_combined_score:
  "\<forall>v \<in> set vals. combined_score v \<noteq> None \<Longrightarrow> those (map combined_score vals) \<noteq> None"
  by (induction vals) (auto split: option.splits)

lemma sorted_by_score_scored:
  assumes "\<forall>v \<in> set vals. combined_score v \<noteq> None"
  shows "sorted_by_score vals = Inr (sort_key (\<lambda>v. - score_of v) vals)"
proof -
  from those_combined_score [OF assms] obtain keys
    where "those (map combined_score vals) = Some keys" by auto
  then show ?thesis
    using sort_key_zip_keys [of vals keys] by (simp add: sorted_by_score_def)
qed

lemma merged_ok_values_scored:
  "merged_ok m \<Longrightarrow> \<forall>v \<in> set (map snd m). combined_score v \<noteq> None"
  by (auto simp: merged_ok_def entry_ok_def)

lemma merge_expert_results_rows:
  "merge_expert_results (map db1_expert rows1) (map db2_expert rows2) =
     Inr (sort_key (\<lambda>v. - score_of v) (map snd (merged_rows rows1 rows2)))"
proof -
  have ok1: "merged_ok (fold step_db1 rows1 [])"
    by (simp add: merged_ok_fold_db1 merged_ok_Nil)
  have "sorted_by_score (map snd (merged_rows rows1 rows2)) =
          Inr (sort_key (\<lambda>v. - score_of v) (map snd (merged_rows rows1 rows2)))"
    by (rule sorted_by_score_scored) (rule merged_ok_values_scored [OF merged_ok_merged_rows])
  then show ?thesis
    by (simp add: merge_expert_results_def add_db1_experts_rows
        add_db2_experts_rows [OF ok1] merged_rows_def)
qed

lemma merged_ok_Cons:
  "merged_ok ((k, v) # m) \<longleftrightarrow> k \<notin> fst ` set m \<and> entry_ok k v \<and> merged_ok m"
  by (auto simp: merged_ok_def)

lemma named_values:
  "merged_ok m \<Longrightarrow>
   filter (\<lambda>v. name v = Some n) (map snd m) =
     (case map_of m n of None \<Rightarrow> [] | Some e \<Rightarrow> [e])"
proof (induction m)
  case Nil
  then show ?case by simp
next
  case (Cons p m)
  obtain k v where p: "p = (k, v)" by (cases p)
  from Cons.prems have fresh: "k \<notin> fst ` set m" and v: "name v = Some k" and ok: "merged_ok m"
    by (simp_all add: p merged_ok_Cons entry_ok_def)
  from fresh have none: "map_of m k = None" by (simp add: map_of_eq_None_iff)
  show ?case
    using Cons.IH [OF ok] v none by (auto simp: p)
qed

lemma named_output:
  "merged_ok m \<Longrightarrow>
   filter (\<lambda>v. name v = Some n) (sort_key f (map snd m)) =
     (case map_of m n of None \<Rightarrow> [] | Some e \<Rightarrow> [e])"
  by (simp add: filter_sort named_values split: option.splits)

lemma output_entry:
  assumes "merged_ok m" and "e \<in> set (sort_key f (map snd m))"
  shows "\<exists>n. name e = Some n \<and> map_of m n = Some e"
proof -
  from assms(2) obtain k where "(k, e) \<in> set m" by auto
  moreover from this assms(1) have "name e = Some k" by (auto simp: merged_ok_def entry_ok_def)
  moreover from assms(1) have "distinct (map fst m)" by (simp add: merged_ok_def)
  ultimately show ?thesis by (auto intro: map_of_is_SomeI)
qed

lemmas merge_eval =
  merge_expert_results_def add_db1_expert_def add_db2_expert_def sorted_by_score_def
  db1_expert_def db2_expert_def empty_dict_def db1_row_of_def db2_row_of_def

lemma map_of_merged_rows_both:
  assumes "filter (\<lambda>r. row1_name r = n) rows1 \<noteq> []"
    and "filter (\<lambda>r. row2_name r = n) rows2 = [r2]"
  shows "map_of (merged_rows rows1 rows2) n =
           Some (absorb_db2 (scored_db1 (last (filter (\<lambda>r. row1_name r = n) rows1))) r2)"
  using assms
  by (simp add: merged_rows_def map_of_fold_db2_once map_of_fold_db1 split: list.splits)

lemma map_of_merged_rows_db1_only:
  assumes "filter (\<lambda>r. row1_name r = n) rows1 \<noteq> []"
    and "filter (\<lambda>r. row2_name r = n) rows2 = []"
  shows "map_of (merged_rows rows1 rows2) n =
           Some (scored_db1 (last (filter (\<lambda>r. row1_name r = n) rows1)))"
  using assms
  by (simp add: merged_rows_def map_of_fold_db2_other map_of_fold_db1 split: list.splits)

lemma map_of_merged_rows_db2_once:
  assumes "filter (\<lambda>r. row1_name r = n) rows1 = []"
    and "filter (\<lambda>r. row2_name r = n) rows2 = [r2]"
  shows "map_of (merged_rows rows1 rows2) n = Some (scored_db2 r2)"
  using assms
  by (simp add: merged_rows_def map_of_fold_db2_once map_of_fold_db1)

lemma length_merged_rows:
  "length (merged_rows rows1 rows2) = card (row1_name ` set rows1 \<union> row2_name ` set rows2)"
proof -
  have "distinct (map fst (merged_rows rows1 rows2))"
    using merged_ok_merged_rows [of rows1 rows2] by (simp add: merged_ok_def)
  then have "card (set (map fst (merged_rows rows1 rows2))) =
      length (map fst (merged_rows rows1 rows2))"
    by (rule distinct_card)
  then show ?thesis by (simp add: keys_merged_rows)
qed

lemma db1_fields_absent_scored_db2: "db1_fields_absent (scored_db2 r)"
  by (simp add: db1_fields_absent_def scored_db2_def db2_expert_def empty_dict_def)

lemma db1_fields_absent_absorb: "db1_fields_absent e \<Longrightarrow> db1_fields_absent (absorb_db2 e r)"
  by (simp add: db1_fields_absent_def absorb_db2_def)

lemma db2_fields_absent_scored_db1: "db2_fields_absent (scored_db1 r)"
  by (simp add: db2_fields_absent_def scored_db1_def db1_expert_def empty_dict_def)

lemma db1_fields_absent_step_db2:
  assumes "\<forall>e. map_of m n = Some e \<longrightarrow> db1_fields_absent e"
  shows "\<forall>e. map_of (step_db2 r m) n = Some e \<longrightarrow> db1_fields_absent e"
proof (cases "row2_name r = n")
  case False
  with assms show ?thesis by (simp add: map_of_step_db2)
next
  case True
  show ?thesis
  proof (cases "map_of m n")
    case None
    with True show ?thesis
      by (simp add: map_of_step_db2 db1_fields_absent_scored_db2)
  next
    case (Some e0)
    with assms have "db1_fields_absent e0" by simp
    with True Some show ?thesis
      by (simp add: map_of_step_db2 db1_fields_absent_absorb)
  qed
qed

lemma db1_fields_absent_fold_db2:
  "\<forall>e. map_of m n = Some e \<longrightarrow> db1_fields_absent e \<Longrightarrow>
   \<forall>e. map_of (fold step_db2 rows m) n = Some e \<longrightarrow> db1_fields_absent e"
proof (induction rows arbitrary: m)
  case Nil
  then show ?case by simp
next
  case (Cons r rows)
  have "\<forall>e. map_of (step_db2 r m) n = Some e \<longrightarrow> db1_fields_absent e"
    using Cons.prems by (rule db1_fields_absent_step_db2)
  from Cons.IH [OF this] show ?case by simp
qed

lemma db1_fields_absent_merged_rows:
  assumes "filter (\<lambda>r. row1_name r = n) rows1 = []"
    and "map_of (merged_rows rows1 rows2) n = Some e"
  shows "db1_fields_absent e"
proof -
  from assms(1) have "map_of (fold step_db1 rows1 []) n = None"
    by (simp add: map_of_fold_db1)
  then have "\<forall>e. map_of (fold step_db1 rows1 []) n = Some e \<longrightarrow> db1_fields_absent e"
    by simp
  from db1_fields_absent_fold_db2 [OF this] assms(2) show ?thesis
    by (simp add: merged_rows_def)
qed

lemma db2_fields_absent_merged_rows:
  assumes "filter (\<lambda>r. row2_name r = n) rows2 = []"
    and "map_of (merged_rows rows1 rows2) n = Some e"
  shows "db2_fields_absent e"
proof -
  from assms have look: "map_of (fold step_db1 rows1 []) n = Some e"
    by (simp add: merged_rows_def map_of_fold_db2_other)
  then obtain x where "e = scored_db1 x"
    by (auto simp: map_of_fold_db1 split: list.splits if_splits)
  then show ?thesis
    by (simp add: db2_fields_absent_scored_db1)
qed

lemma score_of_merged_rows:
  assumes "map_of (merged_rows rows1 rows2) n = Some e"
  shows "\<exists>c. combined_score e = Some c \<and>
           num_val c =
             (case filter (\<lambda>r. row1_name r = n) rows1 of
                [] \<Rightarrow> 0
              | r # rs \<Rightarrow> of_int (row1_relevant_pubs (last (r # rs)))) +
             (1 / 2) *
               of_int (sum_list (map row2_relevant_theses (filter (\<lambda>r. row2_name r = n) rows2)))"
proof -
  from merged_ok_lookup [OF merged_ok_merged_rows assms]
  obtain c where c: "combined_score e = Some c" by (auto simp: entry_ok_def)
  have "score_at (merged_rows rows1 rows2) n = num_val c"
    using assms c by (simp add: score_at_def score_of_def)
  with c show ?thesis
    by (simp add: score_at_merged_rows)
qed

lemma ai_query_sent: "snd (ai_query self sent prompt max_tokens) = sent @ [ai_request self prompt max_tokens]"
  by (simp add: ai_query_def Let_def)

lemma ai_query_failure:
  "ai_failure (llm_post self (ai_request self prompt max_tokens)) \<Longrightarrow>
   tagged_error (fst (ai_query self sent prompt max_tokens))"
  by (cases "llm_post self (ai_request self prompt max_tokens)" rule: ai_failure.cases)
     (simp_all add: ai_query_def Let_def tagged_error_def)

lemma map_of_fold_db2:
  "map_of (fold step_db2 rows m) n =
     (case filter (\<lambda>r. row2_name r = n) rows of
        [] \<Rightarrow> map_of m n
      | r # rs \<Rightarrow>
          Some (foldl absorb_db2
            (case map_of m n of None \<Rightarrow> scored_db2 r | Some e \<Rightarrow> absorb_db2 e r) rs))"
proof (induction rows arbitrary: m)
  case Nil
  then show ?case by simp
next
  case (Cons x rows)
  show ?case
    by (simp add: Cons.IH map_of_step_db2 split: list.splits)
qed

lemma map_of_merged_rows_db2_only:
  assumes "filter (\<lambda>r. row1_name r = n) rows1 = []"
    and "filter (\<lambda>r. row2_name r = n) rows2 = r # rs"
  shows "map_of (merged_rows rows1 rows2) n = Some (foldl absorb_db2 (scored_db2 r) rs)"
  using assms
  by (simp add: merged_rows_def map_of_fold_db2 map_of_fold_db1)

lemma foldl_absorb_kept:
  "name (foldl absorb_db2 e rs) = name e"
  "roles (foldl absorb_db2 e rs) = roles e"
  "orcid_id (foldl absorb_db2 e rs) = orcid_id e"
  "relevant_publications (foldl absorb_db2 e rs) = relevant_publications e"
  "sample_publications (foldl absorb_db2 e rs) = sample_publications e"
  "organizations (foldl absorb_db2 e rs) = organizations e"
  "departments (foldl absorb_db2 e rs) = departments e"
  by (induction rs arbitrary: e) (simp_all add: absorb_db2_def)

lemma foldl_absorb_last:
  "rs \<noteq> [] \<Longrightarrow>
   relevant_theses (foldl absorb_db2 e rs) = Some (row2_relevant_theses (last rs)) \<and>
   sample_theses (foldl absorb_db2 e rs) = Some (row2_sample_theses (last rs))"
proof (induction rs arbitrary: e)
  case Nil
  then show ?case by simp
next
  case (Cons x rs)
  show ?case
  proof (cases "rs = []")
    case True
    then show ?thesis by (simp add: absorb_db2_def)
  next
    case False
    with Cons.IH [OF False, of "absorb_db2 e x"] show ?thesis by simp
  qed
qed

lemma db2_only_entry:
  "name (foldl absorb_db2 (scored_db2 r) rs) = Some (row2_name r) \<and>
   roles (foldl absorb_db2 (scored_db2 r) rs) = Some (row2_roles r) \<and>
   relevant_theses (foldl absorb_db2 (scored_db2 r) rs) =
     Some (row2_relevant_theses (last (r # rs))) \<and>
   sample_theses (foldl absorb_db2 (scored_db2 r) rs) =
     Some (row2_sample_theses (last (r # rs))) \<and>
   orcid_id (foldl absorb_db2 (scored_db2 r) rs) = None \<and>
   relevant_publications (foldl absorb_db2 (scored_db2 r) rs) = None \<and>
   sample_publications (foldl absorb_db2 (scored_db2 r) rs) = None \<and>
   organizations (foldl absorb_db2 (scored_db2 r) rs) = None \<and>
   departments (foldl absorb_db2 (scored_db2 r) rs) = None"
proof (cases "rs = []")
  case True
  then show ?thesis
    by (simp add: scored_db2_def db2_expert_def empty_dict_def)
next
  case False
  then show ?thesis
    by (simp add: foldl_absorb_kept foldl_absorb_last scored_db2_def db2_expert_def
        empty_dict_def)
qed

section \<open>The claims\<close>

text \<open>
  \<^verbatim>\<open>_merge_expert_results\<close> is private and has one caller, \<^verbatim>\<open>find_expert\<close>, which
  passes it the lists the two search adapters return. The theorems about its result
  therefore range over every pair of such lists: \<open>map db1_expert rows1\<close> and
  \<open>map db2_expert rows2\<close> for arbitrary query rows.
\<close>

subsection \<open>C1\<close>

text \<open>
  Claim C1: a name present in both input lists appears exactly once in the merged
  output, with source tag \<^verbatim>\<open>both_databases\<close> and combined score equal to its db1
  relevant-publication count plus 0.5 times its db2 relevant-theses count.

  The code misses this when the db2 list holds two records of the name. The query of
  \<^verbatim>\<open>_search_experts_db2\<close> counts the matching theses per person and relation type and
  returns one row for each count, so a person who supervised four matching theses and
  examined two comes back as two rows of the same name. The branch
  \<^verbatim>\<open>if name in merged\<close> of the second loop (lines 307--313) is written for an entry
  that database 1 put there. Run a second time for the same name, it overwrites
  \<^verbatim>\<open>thesis_roles\<close>, \<^verbatim>\<open>relevant_theses\<close> and \<^verbatim>\<open>sample_theses\<close> with the later row and
  still adds that row's half count to \<^verbatim>\<open>combined_score\<close>, so the entry ends with a
  score that is not its publication count plus half of the thesis count it shows.

  db1 = [A: 1 publication], db2 = [A: 4 theses as supervisor, A: 2 theses as examiner],
  in the descending order of the query: the one entry for A shows 2 relevant theses
  and the examiner role, and its score is 1 + 2.0 + 1.0 = 4.0, which is neither
  1 + 0.5 * 2 nor 1 + 0.5 * 4.
\<close>

theorem merge_repeated_db2_name_in_both:
  "merge_expert_results
     (map db1_expert
       [\<lparr>row1_name = ''A'', row1_orcid_id = None, row1_relevant_pubs = 1,
         row1_sample_pubs = [''P1''], row1_organizations = [], row1_departments = []\<rparr>])
     (map db2_expert
       [\<lparr>row2_name = ''A'', row2_roles = [''SUPERVISOR''], row2_relevant_theses = 4,
         row2_sample_theses = [''S1'', ''S2'', ''S3'']\<rparr>,
        \<lparr>row2_name = ''A'', row2_roles = [''EXAMINER''], row2_relevant_theses = 2,
         row2_sample_theses = [''E1'', ''E2'']\<rparr>]) =
   Inr [\<lparr>name = Some ''A'', orcid_id = Some None, relevant_publications = Some 1,
         sample_publications = Some [''P1''], organizations = Some [], departments = Some [],
         source = Some ''both_databases'', roles = None, relevant_theses = Some 2,
         sample_theses = Some [''E1'', ''E2''], thesis_roles = Some [''EXAMINER''],
         combined_score = Some (PyFloat 4)\<rparr>] \<and>
   PyFloat 4 \<noteq> PyFloat (of_int 1 + (1 / 2) * of_int 2) \<and>
   PyFloat 4 \<noteq> PyFloat (of_int 1 + (1 / 2) * of_int 4)"
  by (simp add: merge_eval)

text \<open>
  With one db2 record of the name the second loop visits the name once, and the merge
  does what the claim says, whatever else the two lists hold: the output has exactly
  one entry of that name, tagged \<^verbatim>\<open>both_databases\<close>, whose score is the publication
  count of the db1 record kept for the name (the last one) plus half the thesis count
  of the db2 record.
\<close>

lemma merge_single_db2_row_in_both:
  assumes "filter (\<lambda>r. row1_name r = n) rows1 \<noteq> []"
    and "filter (\<lambda>r. row2_name r = n) rows2 = [r2]"
  shows "\<exists>out e.
           merge_expert_results (map db1_expert rows1) (map db2_expert rows2) = Inr out \<and>
           filter (\<lambda>v. name v = Some n) out = [e] \<and>
           source e = Some ''both_databases'' \<and>
           combined_score e =
             Some (PyFloat
               (of_int (row1_relevant_pubs (last (filter (\<lambda>r. row1_name r = n) rows1))) +
                (1 / 2) * of_int (row2_relevant_theses r2)))"
proof -
  let ?e = "absorb_db2 (scored_db1 (last (filter (\<lambda>r. row1_name r = n) rows1))) r2"
  have "filter (\<lambda>v. name v = Some n)
          (sort_key (\<lambda>v. - score_of v) (map snd (merged_rows rows1 rows2))) = [?e]"
    by (simp add: named_output [OF merged_ok_merged_rows] map_of_merged_rows_both [OF assms])
  moreover have "source ?e = Some ''both_databases''"
    by (simp add: absorb_db2_def)
  moreover have "combined_score ?e =
      Some (PyFloat
        (of_int (row1_relevant_pubs (last (filter (\<lambda>r. row1_name r = n) rows1))) +
         (1 / 2) * of_int (row2_relevant_theses r2)))"
    by (simp add: absorb_db2_def score_of_scored_db1)
  ultimately show ?thesis
    by (simp add: merge_expert_results_rows)
qed

text \<open>
  The spec's scenario: db1 = [A with 4 publications], db2 = [A with 2 theses] gives one
  entry A with score 5.0 and source \<^verbatim>\<open>both_databases\<close>.
\<close>

lemma merge_single_db2_row_in_both_example:
  "filter (\<lambda>r. row1_name r = ''A'') [db1_row_of ''A'' 4] \<noteq> [] \<and>
   filter (\<lambda>r. row2_name r = ''A'') [db2_row_of ''A'' 2] = [db2_row_of ''A'' 2] \<and>
   merge_expert_results
     (map db1_expert [db1_row_of ''A'' 4]) (map db2_expert [db2_row_of ''A'' 2]) =
   Inr [(db1_expert (db1_row_of ''A'' 4))
         \<lparr>thesis_roles := Some [], relevant_theses := Some 2, sample_theses := Some [],
          combined_score := Some (PyFloat 5), source := Some ''both_databases''\<rparr>] \<and>
   (\<exists>out e.
      merge_expert_results
        (map db1_expert [db1_row_of ''A'' 4]) (map db2_expert [db2_row_of ''A'' 2]) = Inr out \<and>
      filter (\<lambda>v. name v = Some ''A'') out = [e] \<and>
      source e = Some ''both_databases'' \<and>
      combined_score e =
        Some (PyFloat
          (of_int (row1_relevant_pubs
             (last (filter (\<lambda>r. row1_name r = ''A'') [db1_row_of ''A'' 4]))) +
           (1 / 2) * of_int (row2_relevant_theses (db2_row_of ''A'' 2)))))"
proof -
  have h1: "filter (\<lambda>r. row1_name r = ''A'') [db1_row_of ''A'' 4] \<noteq> []"
    by (simp add: db1_row_of_def)
  have h2: "filter (\<lambda>r. row2_name r = ''A'') [db2_row_of ''A'' 2] = [db2_row_of ''A'' 2]"
    by (simp add: db2_row_of_def)
  have ev: "merge_expert_results
     (map db1_expert [db1_row_of ''A'' 4]) (map db2_expert [db2_row_of ''A'' 2]) =
   Inr [(db1_expert (db1_row_of ''A'' 4))
         \<lparr>thesis_roles := Some [], relevant_theses := Some 2, sample_theses := Some [],
          combined_score := Some (PyFloat 5), source := Some ''both_databases''\<rparr>]"
    by (simp add: merge_eval)
  show ?thesis
    using merge_single_db2_row_in_both [OF h1 h2] h1 h2 ev by blast
qed

subsection \<open>C4\<close>

text \<open>
  Claim C4: for every pair of input lists, the list returned by
  \<^verbatim>\<open>_merge_expert_results\<close> is sorted by combined score in non-increasing order.
  On every pair of lists the adapters can return, the function returns a list; and
  whatever list it returns, on any two lists of dicts, every entry of it has a score
  and each entry's score is at least that of every later entry.
\<close>

theorem merge_sorted_descending:
  "(\<exists>out. merge_expert_results (map db1_expert rows1) (map db2_expert rows2) = Inr out) \<and>
   (merge_expert_results db1_experts db2_experts = Inr out \<longrightarrow>
      sorted_wrt (\<lambda>a b. \<exists>x y. combined_score a = Some x \<and> combined_score b = Some y \<and>
                           num_val y \<le> num_val x) out)"
proof (intro conjI impI)
  show "\<exists>out. merge_expert_results (map db1_expert rows1) (map db2_expert rows2) = Inr out"
    by (simp add: merge_expert_results_rows)
next
  assume "merge_expert_results db1_experts db2_experts = Inr out"
  then obtain vals where vals: "sorted_by_score vals = Inr out"
    by (auto simp: merge_expert_results_def split: sum.splits)
  then obtain keys where keys: "those (map combined_score vals) = Some keys"
    by (auto simp: sorted_by_score_def split: option.splits)
  have len: "length keys = length vals" using keys
    by (induction vals arbitrary: keys) (auto split: option.splits)
  from sort_key_zip_keys [OF keys] vals keys
  have out: "out = sort_key (\<lambda>v. - score_of v) vals"
    and zipped: "\<forall>(c, v) \<in> set (zip keys vals). combined_score v = Some c"
    by (simp_all add: sorted_by_score_def)
  have scored: "\<exists>c. combined_score v = Some c" if "v \<in> set vals" for v
  proof -
    from that len have "v \<in> snd ` set (zip keys vals)" by (simp add: map_snd_zip flip: set_map)
    with zipped show ?thesis by auto
  qed
  have "sorted (map (\<lambda>v. - score_of v) out)"
    unfolding out by (rule sorted_sort_key)
  then have "sorted_wrt (\<lambda>a b. - score_of a \<le> - score_of b) out"
    by (simp add: sorted_map)
  then show "sorted_wrt (\<lambda>a b. \<exists>x y. combined_score a = Some x \<and> combined_score b = Some y \<and>
                           num_val y \<le> num_val x) out"
  proof (rule sorted_wrt_mono_rel [rotated])
    fix a b
    assume "a \<in> set out" "b \<in> set out" "- score_of a \<le> - score_of b"
    moreover from this obtain x y where "combined_score a = Some x" "combined_score b = Some y"
      using scored unfolding out by (metis set_sort)
    ultimately show "\<exists>x y. combined_score a = Some x \<and> combined_score b = Some y \<and>
                        num_val y \<le> num_val x"
      by (simp add: score_of_def)
  qed
qed

text \<open>
  db1 = [A: 3, B: 3, A: 5, C: 9], db2 = [D: 6, B: 1] comes out as C (9), A (5),
  B (3.5), D (3.0).
\<close>

theorem merge_sorted_descending_witness:
  "map combined_score
     (projr (merge_expert_results
        (map db1_expert
           [db1_row_of ''A'' 3, db1_row_of ''B'' 3, db1_row_of ''A'' 5, db1_row_of ''C'' 9])
        (map db2_expert [db2_row_of ''D'' 6, db2_row_of ''B'' 1]))) =
   [Some (PyInt 9), Some (PyInt 5), Some (PyFloat (7 / 2)), Some (PyFloat 3)] \<and>
   sorted_wrt (\<lambda>a b. \<exists>x y. combined_score a = Some x \<and> combined_score b = Some y \<and>
                        num_val y \<le> num_val x)
     (projr (merge_expert_results
        (map db1_expert
           [db1_row_of ''A'' 3, db1_row_of ''B'' 3, db1_row_of ''A'' 5, db1_row_of ''C'' 9])
        (map db2_expert [db2_row_of ''D'' 6, db2_row_of ''B'' 1])))"
proof -
  let ?m = "merge_expert_results
        (map db1_expert
           [db1_row_of ''A'' 3, db1_row_of ''B'' 3, db1_row_of ''A'' 5, db1_row_of ''C'' 9])
        (map db2_expert [db2_row_of ''D'' 6, db2_row_of ''B'' 1])"
  have ret: "?m = Inr (projr ?m)"
    by (simp only: merge_expert_results_rows sum.sel)
  have "map combined_score (projr ?m) =
      [Some (PyInt 9), Some (PyInt 5), Some (PyFloat (7 / 2)), Some (PyFloat 3)]"
    by (simp add: merge_eval)
  then show ?thesis
    using merge_sorted_descending [THEN conjunct2, THEN mp, OF ret] by blast
qed

subsection \<open>C2\<close>

text \<open>
  Claim C2, as stated: the length of the output list is at least
  max(|db1 list|, |db2 list|) and at most |db1 list| + |db2 list|.

  The output has one entry for each distinct name, so the upper bound always holds but
  the lower bound fails as soon as a name repeats within one list (see the
  counterexample). What holds: the output length is the number of distinct names of the
  two lists together; it is at most |db1 list| + |db2 list|; and it is at least
  max(|db1 list|, |db2 list|) when no name repeats within either list.
\<close>

theorem merge_length_bounds:
  "\<exists>out. merge_expert_results (map db1_expert rows1) (map db2_expert rows2) = Inr out \<and>
     length out = card (row1_name ` set rows1 \<union> row2_name ` set rows2) \<and>
     length out \<le> length (map db1_expert rows1) + length (map db2_expert rows2) \<and>
     (distinct (map row1_name rows1) \<and> distinct (map row2_name rows2) \<longrightarrow>
        max (length (map db1_expert rows1)) (length (map db2_expert rows2)) \<le> length out)"
proof -
  let ?A = "row1_name ` set rows1" and ?B = "row2_name ` set rows2"
  have A: "card ?A \<le> length rows1" and B: "card ?B \<le> length rows2"
    by (metis card_length length_map set_map)+
  have upper: "card (?A \<union> ?B) \<le> length rows1 + length rows2"
    using card_Un_le [of ?A ?B] A B by linarith
  have lower: "max (length rows1) (length rows2) \<le> card (?A \<union> ?B)"
    if "distinct (map row1_name rows1)" "distinct (map row2_name rows2)"
  proof -
    from that have "card ?A = length rows1" "card ?B = length rows2"
      by (metis distinct_card length_map set_map)+
    moreover have "card ?A \<le> card (?A \<union> ?B)" "card ?B \<le> card (?A \<union> ?B)"
      by (simp_all add: card_mono)
    ultimately show ?thesis by simp
  qed
  show ?thesis
    using upper lower by (simp add: merge_expert_results_rows length_merged_rows)
qed

text \<open>
  db1 = [A: 4, B: 3], db2 = [A: 2, C: 1], no name repeated within a list: three entries,
  between max(2, 2) and 2 + 2.
\<close>

theorem merge_length_bounds_witness:
  "distinct (map row1_name [db1_row_of ''A'' 4, db1_row_of ''B'' 3]) \<and>
   distinct (map row2_name [db2_row_of ''A'' 2, db2_row_of ''C'' 1]) \<and>
   (\<exists>out. merge_expert_results
        (map db1_expert [db1_row_of ''A'' 4, db1_row_of ''B'' 3])
        (map db2_expert [db2_row_of ''A'' 2, db2_row_of ''C'' 1]) = Inr out \<and>
      length out = 3 \<and>
      length out \<le> length (map db1_expert [db1_row_of ''A'' 4, db1_row_of ''B'' (3::int)]) +
                   length (map db2_expert [db2_row_of ''A'' 2, db2_row_of ''C'' (1::int)]) \<and>
      max (length (map db1_expert [db1_row_of ''A'' 4, db1_row_of ''B'' (3::int)]))
          (length (map db2_expert [db2_row_of ''A'' 2, db2_row_of ''C'' (1::int)])) \<le> length out)"
proof -
  have h1: "distinct (map row1_name [db1_row_of ''A'' 4, db1_row_of ''B'' 3])"
    by (simp add: db1_row_of_def)
  have h2: "distinct (map row2_name [db2_row_of ''A'' 2, db2_row_of ''C'' 1])"
    by (simp add: db2_row_of_def)
  have c: "card (row1_name ` set [db1_row_of ''A'' 4, db1_row_of ''B'' 3] \<union>
                 row2_name ` set [db2_row_of ''A'' 2, db2_row_of ''C'' 1]) = 3"
    by (simp add: db1_row_of_def db2_row_of_def card_insert_if)
  show ?thesis
    using merge_length_bounds
      [of "[db1_row_of ''A'' 4, db1_row_of ''B'' 3]" "[db2_row_of ''A'' 2, db2_row_of ''C'' 1]"]
      h1 h2 c
    by auto
qed

text \<open>
  db1 = [A: 3, A: 5], db2 = []: the output has the single entry A (score 5), fewer than
  max(2, 0) entries.
\<close>

theorem merge_length_bounds_counterexample:
  "merge_expert_results (map db1_expert [db1_row_of ''A'' 3, db1_row_of ''A'' 5]) (map db2_expert []) =
     Inr [(db1_expert (db1_row_of ''A'' 5))\<lparr>combined_score := Some (PyInt 5)\<rparr>] \<and>
   \<not> max (length (map db1_expert [db1_row_of ''A'' 3, db1_row_of ''A'' (5::int)]))
         (length (map db2_expert ([] :: string db2_row list)))
       \<le> length [(db1_expert (db1_row_of ''A'' 5))\<lparr>combined_score := Some (PyInt 5)\<rparr>]"
  by (simp add: merge_eval)

subsection \<open>C3\<close>

text \<open>
  Claim C3: a name present only in the db1 list yields an entry whose combined score
  is its relevant-publication count and whose source tag is \<^verbatim>\<open>database_1\<close>; a name
  present only in the db2 list yields an entry whose combined score is 0.5 times its
  relevant-theses count and whose source tag is \<^verbatim>\<open>database_2\<close>.

  The code misses the second half when the db2 list holds two records of a name that
  database 1 does not return (one person with two kinds of thesis relation, see C1).
  The first record takes the \<^verbatim>\<open>else\<close> branch of the second loop and is stored with
  half its count and the adapter's tag \<^verbatim>\<open>database_2\<close>. The second record finds the
  name in \<^verbatim>\<open>merged\<close> and takes the branch meant for names that database 1 put there
  (lines 307--313): it adds its half count and sets the tag to \<^verbatim>\<open>both_databases\<close>,
  although no db1 record carries the name.

  db1 = [], db2 = [A: 4 theses as supervisor, A: 2 theses as examiner], in the
  descending order of the query: the one entry for A is tagged \<^verbatim>\<open>both_databases\<close>,
  not \<^verbatim>\<open>database_2\<close>, shows 2 relevant theses and has score 2.0 + 1.0 = 3.0, which is
  neither 0.5 * 2 nor 0.5 * 4.
\<close>

theorem merge_repeated_db2_name_only:
  "merge_expert_results (map db1_expert [])
     (map db2_expert
       [\<lparr>row2_name = ''A'', row2_roles = [''SUPERVISOR''], row2_relevant_theses = 4,
         row2_sample_theses = [''S1'', ''S2'', ''S3'']\<rparr>,
        \<lparr>row2_name = ''A'', row2_roles = [''EXAMINER''], row2_relevant_theses = 2,
         row2_sample_theses = [''E1'', ''E2'']\<rparr>]) =
   Inr [\<lparr>name = Some ''A'', orcid_id = None, relevant_publications = None,
         sample_publications = None, organizations = None, departments = None,
         source = Some ''both_databases'', roles = Some [''SUPERVISOR''],
         relevant_theses = Some 2, sample_theses = Some [''E1'', ''E2''],
         thesis_roles = Some [''EXAMINER''], combined_score = Some (PyFloat 3)\<rparr>] \<and>
   Some ''both_databases'' \<noteq> Some ''database_2'' \<and>
   PyFloat 3 \<noteq> PyFloat ((1 / 2) * of_int 2) \<and> PyFloat 3 \<noteq> PyFloat ((1 / 2) * of_int 4)"
  by (simp add: merge_eval)

text \<open>
  Apart from that path the merge does what the claim says, whatever else the two
  lists hold. A name that occurs in the db1 list and not in the db2 list has exactly
  one entry, with the publication count of the db1 record kept for the name (the last
  one) as score, a Python int, and the tag \<^verbatim>\<open>database_1\<close>. A name that does not occur
  in the db1 list and has one record in the db2 list has exactly one entry, with 0.5
  times the thesis count as score and the tag \<^verbatim>\<open>database_2\<close>.
\<close>

lemma merge_name_in_one_list:
  "\<exists>out. merge_expert_results (map db1_expert rows1) (map db2_expert rows2) = Inr out \<and>
     (filter (\<lambda>r. row1_name r = n) rows1 \<noteq> [] \<and> filter (\<lambda>r. row2_name r = n) rows2 = [] \<longrightarrow>
        (\<exists>e. filter (\<lambda>v. name v = Some n) out = [e] \<and>
             combined_score e =
               Some (PyInt (row1_relevant_pubs (last (filter (\<lambda>r. row1_name r = n) rows1)))) \<and>
             source e = Some ''database_1'')) \<and>
     (filter (\<lambda>r. row1_name r = n) rows1 = [] \<and> filter (\<lambda>r. row2_name r = n) rows2 = [r2] \<longrightarrow>
        (\<exists>e. filter (\<lambda>v. name v = Some n) out = [e] \<and>
             combined_score e = Some (PyFloat ((1 / 2) * of_int (row2_relevant_theses r2))) \<and>
             source e = Some ''database_2''))"
proof -
  let ?out = "sort_key (\<lambda>v. - score_of v) (map snd (merged_rows rows1 rows2))"
  have one: "\<exists>e. filter (\<lambda>v. name v = Some n) ?out = [e] \<and>
             combined_score e =
               Some (PyInt (row1_relevant_pubs (last (filter (\<lambda>r. row1_name r = n) rows1)))) \<and>
             source e = Some ''database_1''"
    if "filter (\<lambda>r. row1_name r = n) rows1 \<noteq> []" "filter (\<lambda>r. row2_name r = n) rows2 = []"
    using map_of_merged_rows_db1_only [OF that]
    by (simp add: named_output [OF merged_ok_merged_rows] scored_db1_def db1_expert_def)
  have two: "\<exists>e. filter (\<lambda>v. name v = Some n) ?out = [e] \<and>
             combined_score e = Some (PyFloat ((1 / 2) * of_int (row2_relevant_theses r2))) \<and>
             source e = Some ''database_2''"
    if "filter (\<lambda>r. row1_name r = n) rows1 = []" "filter (\<lambda>r. row2_name r = n) rows2 = [r2]"
    using map_of_merged_rows_db2_once [OF that]
    by (simp add: named_output [OF merged_ok_merged_rows] scored_db2_def db2_expert_def)
  show ?thesis
    using one two by (simp add: merge_expert_results_rows)
qed

text \<open>
  The spec's second scenario extended by a db2 row: db1 = [B: 3], db2 = [D: 6] gives
  B with score 3 and tag \<^verbatim>\<open>database_1\<close>, then D with score 3.0 and tag
  \<^verbatim>\<open>database_2\<close>.
\<close>

lemma merge_name_in_one_list_example:
  "filter (\<lambda>r. row1_name r = ''B'') [db1_row_of ''B'' 3] \<noteq> [] \<and>
   filter (\<lambda>r. row2_name r = ''B'') [db2_row_of ''D'' 6] = [] \<and>
   filter (\<lambda>r. row1_name r = ''D'') [db1_row_of ''B'' 3] = [] \<and>
   filter (\<lambda>r. row2_name r = ''D'') [db2_row_of ''D'' 6] = [db2_row_of ''D'' 6] \<and>
   merge_expert_results (map db1_expert [db1_row_of ''B'' 3]) (map db2_expert [db2_row_of ''D'' 6]) =
     Inr [(db1_expert (db1_row_of ''B'' 3))\<lparr>combined_score := Some (PyInt 3)\<rparr>,
          (db2_expert (db2_row_of ''D'' 6))\<lparr>combined_score := Some (PyFloat 3)\<rparr>] \<and>
   (\<exists>out e1 e2.
      merge_expert_results (map db1_expert [db1_row_of ''B'' 3])
        (map db2_expert [db2_row_of ''D'' 6]) = Inr out \<and>
      filter (\<lambda>v. name v = Some ''B'') out = [e1] \<and>
      combined_score e1 = Some (PyInt 3) \<and> source e1 = Some ''database_1'' \<and>
      filter (\<lambda>v. name v = Some ''D'') out = [e2] \<and>
      combined_score e2 = Some (PyFloat 3) \<and> source e2 = Some ''database_2'')"
proof -
  let ?R1 = "[db1_row_of ''B'' 3]" and ?R2 = "[db2_row_of ''D'' 6]"
  have h1: "filter (\<lambda>r. row1_name r = ''B'') ?R1 \<noteq> []"
    and h2: "filter (\<lambda>r. row2_name r = ''B'') ?R2 = []"
    and h3: "filter (\<lambda>r. row1_name r = ''D'') ?R1 = []"
    and h4: "filter (\<lambda>r. row2_name r = ''D'') ?R2 = [db2_row_of ''D'' 6]"
    by (simp_all add: db1_row_of_def db2_row_of_def)
  have ev: "merge_expert_results (map db1_expert ?R1) (map db2_expert ?R2) =
     Inr [(db1_expert (db1_row_of ''B'' 3))\<lparr>combined_score := Some (PyInt 3)\<rparr>,
          (db2_expert (db2_row_of ''D'' 6))\<lparr>combined_score := Some (PyFloat 3)\<rparr>]"
    by (simp add: merge_eval)
  from merge_name_in_one_list [of ?R1 ?R2 "''B''"] h1 h2
  obtain out e1 where out: "merge_expert_results (map db1_expert ?R1) (map db2_expert ?R2) = Inr out"
    and e1: "filter (\<lambda>v. name v = Some ''B'') out = [e1]"
      "combined_score e1 = Some (PyInt (row1_relevant_pubs (last (filter (\<lambda>r. row1_name r = ''B'') ?R1))))"
      "source e1 = Some ''database_1''"
    by blast
  from merge_name_in_one_list [of ?R1 ?R2 "''D''" "db2_row_of ''D'' 6"] h3 h4 out
  obtain e2 where e2: "filter (\<lambda>v. name v = Some ''D'') out = [e2]"
      "combined_score e2 = Some (PyFloat ((1 / 2) * of_int (row2_relevant_theses (db2_row_of ''D'' 6))))"
      "source e2 = Some ''database_2''"
    by auto
  have "combined_score e1 = Some (PyInt 3)"
    using e1(2) by (simp add: db1_row_of_def)
  moreover have "combined_score e2 = Some (PyFloat 3)"
    using e2(2) by (simp add: db2_row_of_def)
  ultimately show ?thesis
    using h1 h2 h3 h4 ev out e1(1,3) e2(1,3) by blast
qed

subsection \<open>C10\<close>

text \<open>
  Claim C10: every record in the output list of \<^verbatim>\<open>_merge_expert_results\<close> carries a
  numeric \<^verbatim>\<open>combined_score\<close> field and a \<^verbatim>\<open>source\<close> field whose value is one of
  \<^verbatim>\<open>database_1\<close>, \<^verbatim>\<open>database_2\<close>, \<^verbatim>\<open>both_databases\<close>. The score is set by the merge;
  the tag is the one the adapter wrote, or \<^verbatim>\<open>both_databases\<close> once a db2 record was
  merged into the entry.
\<close>

theorem merge_output_fields:
  "\<exists>out. merge_expert_results (map db1_expert rows1) (map db2_expert rows2) = Inr out \<and>
     (\<forall>e \<in> set out.
        (\<exists>c. combined_score e = Some c) \<and>
        source e \<in> {Some ''database_1'', Some ''database_2'', Some ''both_databases''})"
proof -
  have "\<forall>(k, v) \<in> set (merged_rows rows1 rows2). entry_ok k v"
    using merged_ok_merged_rows [of rows1 rows2] by (simp add: merged_ok_def)
  then have "\<forall>e \<in> set (map snd (merged_rows rows1 rows2)).
        (\<exists>c. combined_score e = Some c) \<and>
        source e \<in> {Some ''database_1'', Some ''database_2'', Some ''both_databases''}"
    by (fastforce simp: entry_ok_def)
  then show ?thesis
    by (simp add: merge_expert_results_rows)
qed

text \<open>db1 = [A: 4, B: 3], db2 = [A: 2, C: 1]: three entries, one of each tag.\<close>

theorem merge_output_fields_witness:
  "merge_expert_results (map db1_expert [db1_row_of ''A'' 4, db1_row_of ''B'' 3])
     (map db2_expert [db2_row_of ''A'' 2, db2_row_of ''C'' 1]) =
   Inr [(db1_expert (db1_row_of ''A'' 4))
          \<lparr>thesis_roles := Some [], relevant_theses := Some 2, sample_theses := Some [],
           combined_score := Some (PyFloat 5), source := Some ''both_databases''\<rparr>,
        (db1_expert (db1_row_of ''B'' 3))\<lparr>combined_score := Some (PyInt 3)\<rparr>,
        (db2_expert (db2_row_of ''C'' 1))\<lparr>combined_score := Some (PyFloat (1 / 2))\<rparr>] \<and>
   (\<exists>out. merge_expert_results (map db1_expert [db1_row_of ''A'' 4, db1_row_of ''B'' 3])
        (map db2_expert [db2_row_of ''A'' 2, db2_row_of ''C'' 1]) = Inr out \<and>
      (\<forall>e \<in> set out.
        (\<exists>c. combined_score e = Some c) \<and>
        source e \<in> {Some ''database_1'', Some ''database_2'', Some ''both_databases''}))"
proof -
  have ev: "merge_expert_results (map db1_expert [db1_row_of ''A'' 4, db1_row_of ''B'' 3])
     (map db2_expert [db2_row_of ''A'' 2, db2_row_of ''C'' 1]) =
   Inr [(db1_expert (db1_row_of ''A'' 4))
          \<lparr>thesis_roles := Some [], relevant_theses := Some 2, sample_theses := Some [],
           combined_score := Some (PyFloat 5), source := Some ''both_databases''\<rparr>,
        (db1_expert (db1_row_of ''B'' 3))\<lparr>combined_score := Some (PyInt 3)\<rparr>,
        (db2_expert (db2_row_of ''C'' 1))\<lparr>combined_score := Some (PyFloat (1 / 2))\<rparr>]"
    by (simp add: merge_eval)
  show ?thesis
    using merge_output_fields
      [of "[db1_row_of ''A'' 4, db1_row_of ''B'' 3]" "[db2_row_of ''A'' 2, db2_row_of ''C'' 1]"]
      ev
    by blast
qed

subsection \<open>C5\<close>

text \<open>
  Claim C5: \<^verbatim>\<open>_merge_expert_results\<close> applied to two empty lists returns an empty list
  without raising; an empty list on either side is valid input and does not raise; and
  a name appearing in only one database's list produces an entry with only that
  database's fields, the absent fields being treated as zero or empty rather than
  causing a missing-field error.

  On every pair of lists the adapters can return the merge returns a list. Every
  entry of it has a name and a score, and the score is the publication count of the
  last db1 record of that name, or zero when there is none, plus 0.5 times the thesis
  counts of the db2 records of that name, an empty sum when there is none. An entry
  whose name no db2 record carries has none of the keys \<^verbatim>\<open>roles\<close>,
  \<^verbatim>\<open>relevant_theses\<close>, \<^verbatim>\<open>sample_theses\<close>, \<^verbatim>\<open>thesis_roles\<close>; an entry whose name
  no db1 record carries has none of the keys \<^verbatim>\<open>orcid_id\<close>,
  \<^verbatim>\<open>relevant_publications\<close>, \<^verbatim>\<open>sample_publications\<close>, \<^verbatim>\<open>organizations\<close>,
  \<^verbatim>\<open>departments\<close>.

  A name that only the db1 list carries produces exactly one entry, and that entry is
  the dict the db1 adapter built for the last db1 record of the name, every field of
  it unchanged, with the score added and no other key. A name that only the db2 list
  carries produces exactly one entry, which has the name, the \<^verbatim>\<open>roles\<close> of the first
  db2 record of the name, the \<^verbatim>\<open>relevant_theses\<close> and \<^verbatim>\<open>sample_theses\<close> of the last one,
  and none of the db1 keys; when the name has one db2 record, the entry is the dict
  the db2 adapter built for it, every field unchanged, with the score added and no
  other key.
\<close>

theorem merge_never_raises:
  "merge_expert_results [] [] = Inr ([] :: 'n expert list) \<and>
   (\<exists>out. merge_expert_results (map db1_expert rows1) [] = Inr (out :: 'n expert list)) \<and>
   (\<exists>out. merge_expert_results [] (map db2_expert rows2) = Inr (out :: 'n expert list)) \<and>
   (\<exists>out. merge_expert_results (map db1_expert rows1) (map db2_expert rows2) = Inr out \<and>
      (\<forall>e \<in> set out. \<exists>n c.
         name e = Some n \<and> combined_score e = Some c \<and>
         num_val c =
           (case filter (\<lambda>r. row1_name r = n) rows1 of
              [] \<Rightarrow> 0
            | r # rs \<Rightarrow> of_int (row1_relevant_pubs (last (r # rs)))) +
           (1 / 2) *
             of_int (sum_list (map row2_relevant_theses (filter (\<lambda>r. row2_name r = n) rows2))) \<and>
         (filter (\<lambda>r. row2_name r = n) rows2 = [] \<longrightarrow>
            roles e = None \<and> relevant_theses e = None \<and> sample_theses e = None \<and>
            thesis_roles e = None) \<and>
         (filter (\<lambda>r. row1_name r = n) rows1 = [] \<longrightarrow>
            orcid_id e = None \<and> relevant_publications e = None \<and>
            sample_publications e = None \<and> organizations e = None \<and> departments e = None)) \<and>
      (\<forall>n r1.
         filter (\<lambda>r. row1_name r = n) rows1 \<noteq> [] \<and> filter (\<lambda>r. row2_name r = n) rows2 = [] \<and>
         r1 = last (filter (\<lambda>r. row1_name r = n) rows1) \<longrightarrow>
           filter (\<lambda>v. name v = Some n) out =
             [(db1_expert r1)\<lparr>combined_score := Some (PyInt (row1_relevant_pubs r1))\<rparr>]) \<and>
      (\<forall>n r2 rs.
         filter (\<lambda>r. row1_name r = n) rows1 = [] \<and> filter (\<lambda>r. row2_name r = n) rows2 = r2 # rs \<longrightarrow>
           (\<exists>e. filter (\<lambda>v. name v = Some n) out = [e] \<and>
              name e = Some n \<and> roles e = Some (row2_roles r2) \<and>
              relevant_theses e = Some (row2_relevant_theses (last (r2 # rs))) \<and>
              sample_theses e = Some (row2_sample_theses (last (r2 # rs))) \<and>
              orcid_id e = None \<and> relevant_publications e = None \<and>
              sample_publications e = None \<and> organizations e = None \<and> departments e = None \<and>
              (rs = [] \<longrightarrow>
                 e = (db2_expert r2)
                       \<lparr>combined_score :=
                          Some (PyFloat ((1 / 2) * of_int (row2_relevant_theses r2)))\<rparr>))))"
proof -
  have empty: "merge_expert_results [] [] = Inr ([] :: 'n expert list)"
    by (simp add: merge_expert_results_def sorted_by_score_def)
  have left: "\<exists>out. merge_expert_results (map db1_expert rows1) [] = Inr (out :: 'n expert list)"
    using merge_expert_results_rows [of rows1 "[]"] by simp
  have right: "\<exists>out. merge_expert_results [] (map db2_expert rows2) = Inr (out :: 'n expert list)"
    using merge_expert_results_rows [of "[]" rows2] by simp
  let ?out = "sort_key (\<lambda>v. - score_of v) (map snd (merged_rows rows1 rows2))"
  have entries: "\<exists>n c.
         name e = Some n \<and> combined_score e = Some c \<and>
         num_val c =
           (case filter (\<lambda>r. row1_name r = n) rows1 of
              [] \<Rightarrow> 0
            | r # rs \<Rightarrow> of_int (row1_relevant_pubs (last (r # rs)))) +
           (1 / 2) *
             of_int (sum_list (map row2_relevant_theses (filter (\<lambda>r. row2_name r = n) rows2))) \<and>
         (filter (\<lambda>r. row2_name r = n) rows2 = [] \<longrightarrow>
            roles e = None \<and> relevant_theses e = None \<and> sample_theses e = None \<and>
            thesis_roles e = None) \<and>
         (filter (\<lambda>r. row1_name r = n) rows1 = [] \<longrightarrow>
            orcid_id e = None \<and> relevant_publications e = None \<and>
            sample_publications e = None \<and> organizations e = None \<and> departments e = None)"
    if "e \<in> set ?out" for e
  proof -
    from output_entry [OF merged_ok_merged_rows that]
    obtain n where n: "name e = Some n" and look: "map_of (merged_rows rows1 rows2) n = Some e"
      by blast
    from score_of_merged_rows [OF look] obtain c where "combined_score e = Some c"
      and "num_val c =
           (case filter (\<lambda>r. row1_name r = n) rows1 of
              [] \<Rightarrow> 0
            | r # rs \<Rightarrow> of_int (row1_relevant_pubs (last (r # rs)))) +
           (1 / 2) *
             of_int (sum_list (map row2_relevant_theses (filter (\<lambda>r. row2_name r = n) rows2)))"
      by blast
    moreover have "db2_fields_absent e" if "filter (\<lambda>r. row2_name r = n) rows2 = []"
      using that look by (rule db2_fields_absent_merged_rows)
    moreover have "db1_fields_absent e" if "filter (\<lambda>r. row1_name r = n) rows1 = []"
      using that look by (rule db1_fields_absent_merged_rows)
    ultimately show ?thesis
      using n unfolding db1_fields_absent_def db2_fields_absent_def by blast
  qed
  have only1: "filter (\<lambda>v. name v = Some n) ?out =
             [(db1_expert r1)\<lparr>combined_score := Some (PyInt (row1_relevant_pubs r1))\<rparr>]"
    if "filter (\<lambda>r. row1_name r = n) rows1 \<noteq> [] \<and> filter (\<lambda>r. row2_name r = n) rows2 = [] \<and>
         r1 = last (filter (\<lambda>r. row1_name r = n) rows1)" for n r1
  proof -
    from that have "map_of (merged_rows rows1 rows2) n = Some (scored_db1 r1)"
      by (simp add: map_of_merged_rows_db1_only)
    then show ?thesis
      by (simp add: named_output [OF merged_ok_merged_rows] scored_db1_def)
  qed
  have only2: "\<exists>e. filter (\<lambda>v. name v = Some n) ?out = [e] \<and>
              name e = Some n \<and> roles e = Some (row2_roles r2) \<and>
              relevant_theses e = Some (row2_relevant_theses (last (r2 # rs))) \<and>
              sample_theses e = Some (row2_sample_theses (last (r2 # rs))) \<and>
              orcid_id e = None \<and> relevant_publications e = None \<and>
              sample_publications e = None \<and> organizations e = None \<and> departments e = None \<and>
              (rs = [] \<longrightarrow>
                 e = (db2_expert r2)
                       \<lparr>combined_score :=
                          Some (PyFloat ((1 / 2) * of_int (row2_relevant_theses r2)))\<rparr>)"
    if "filter (\<lambda>r. row1_name r = n) rows1 = [] \<and> filter (\<lambda>r. row2_name r = n) rows2 = r2 # rs"
    for n r2 rs
  proof -
    let ?e = "foldl absorb_db2 (scored_db2 r2) rs"
    from that have look: "map_of (merged_rows rows1 rows2) n = Some ?e"
      by (simp add: map_of_merged_rows_db2_only)
    then have one: "filter (\<lambda>v. name v = Some n) ?out = [?e]"
      by (simp add: named_output [OF merged_ok_merged_rows])
    from that have "r2 \<in> set (filter (\<lambda>r. row2_name r = n) rows2)" by simp
    then have n: "row2_name r2 = n" by simp
    have single: "?e = (db2_expert r2)
        \<lparr>combined_score := Some (PyFloat ((1 / 2) * of_int (row2_relevant_theses r2)))\<rparr>"
      if "rs = []"
      using that by (simp add: scored_db2_def)
    show ?thesis
      using one db2_only_entry [of r2 rs] n single by blast
  qed
  have "merge_expert_results (map db1_expert rows1) (map db2_expert rows2) = Inr ?out"
    by (rule merge_expert_results_rows)
  with entries only1 only2 show ?thesis
    using empty left right by blast
qed

text \<open>
  db1 = [B: ORCID, 3 publications, two sample titles, one organization, one
  department], db2 = [D: supervisor of 6 theses, two sample titles]. The entry of B is
  the db1 dict with all its values and the score 3; the entry of D is the db2 dict with
  all its values and the score 3.0. Neither has a key of the other database.
\<close>

theorem merge_never_raises_witness:
  "filter (\<lambda>r. row1_name r = ''B'')
     [\<lparr>row1_name = ''B'', row1_orcid_id = Some ''0000-0002-1825-0097'', row1_relevant_pubs = 3,
       row1_sample_pubs = [''P1'', ''P2''], row1_organizations = [''Chalmers''],
       row1_departments = [''CSE'']\<rparr>] \<noteq> [] \<and>
   filter (\<lambda>r. row2_name r = ''B'')
     [\<lparr>row2_name = ''D'', row2_roles = [''SUPERVISOR''], row2_relevant_theses = 6,
       row2_sample_theses = [''T1'', ''T2'']\<rparr>] = [] \<and>
   filter (\<lambda>r. row1_name r = ''D'')
     [\<lparr>row1_name = ''B'', row1_orcid_id = Some ''0000-0002-1825-0097'', row1_relevant_pubs = 3,
       row1_sample_pubs = [''P1'', ''P2''], row1_organizations = [''Chalmers''],
       row1_departments = [''CSE'']\<rparr>] = [] \<and>
   merge_expert_results
     (map db1_expert
       [\<lparr>row1_name = ''B'', row1_orcid_id = Some ''0000-0002-1825-0097'', row1_relevant_pubs = 3,
         row1_sample_pubs = [''P1'', ''P2''], row1_organizations = [''Chalmers''],
         row1_departments = [''CSE'']\<rparr>])
     (map db2_expert
       [\<lparr>row2_name = ''D'', row2_roles = [''SUPERVISOR''], row2_relevant_theses = 6,
         row2_sample_theses = [''T1'', ''T2'']\<rparr>]) =
   Inr [\<lparr>name = Some ''B'', orcid_id = Some (Some ''0000-0002-1825-0097''),
         relevant_publications = Some 3, sample_publications = Some [''P1'', ''P2''],
         organizations = Some [''Chalmers''], departments = Some [''CSE''],
         source = Some ''database_1'', roles = None, relevant_theses = None,
         sample_theses = None, thesis_roles = None, combined_score = Some (PyInt 3)\<rparr>,
        \<lparr>name = Some ''D'', orcid_id = None, relevant_publications = None,
         sample_publications = None, organizations = None, departments = None,
         source = Some ''database_2'', roles = Some [''SUPERVISOR''], relevant_theses = Some 6,
         sample_theses = Some [''T1'', ''T2''], thesis_roles = None,
         combined_score = Some (PyFloat 3)\<rparr>] \<and>
   (\<exists>out.
      merge_expert_results
        (map db1_expert
          [\<lparr>row1_name = ''B'', row1_orcid_id = Some ''0000-0002-1825-0097'',
            row1_relevant_pubs = 3, row1_sample_pubs = [''P1'', ''P2''],
            row1_organizations = [''Chalmers''], row1_departments = [''CSE'']\<rparr>])
        (map db2_expert
          [\<lparr>row2_name = ''D'', row2_roles = [''SUPERVISOR''], row2_relevant_theses = 6,
            row2_sample_theses = [''T1'', ''T2'']\<rparr>]) = Inr out \<and>
      filter (\<lambda>v. name v = Some ''B'') out =
        [\<lparr>name = Some ''B'', orcid_id = Some (Some ''0000-0002-1825-0097''),
          relevant_publications = Some 3, sample_publications = Some [''P1'', ''P2''],
          organizations = Some [''Chalmers''], departments = Some [''CSE''],
          source = Some ''database_1'', roles = None, relevant_theses = None,
          sample_theses = None, thesis_roles = None, combined_score = Some (PyInt 3)\<rparr>] \<and>
      filter (\<lambda>v. name v = Some ''D'') out =
        [\<lparr>name = Some ''D'', orcid_id = None, relevant_publications = None,
          sample_publications = None, organizations = None, departments = None,
          source = Some ''database_2'', roles = Some [''SUPERVISOR''], relevant_theses = Some 6,
          sample_theses = Some [''T1'', ''T2''], thesis_roles = None,
          combined_score = Some (PyFloat 3)\<rparr>])"
proof -
  let ?b = "\<lparr>row1_name = ''B'', row1_orcid_id = Some ''0000-0002-1825-0097'',
     row1_relevant_pubs = 3, row1_sample_pubs = [''P1'', ''P2''],
     row1_organizations = [''Chalmers''], row1_departments = [''CSE'']\<rparr>"
  let ?d = "\<lparr>row2_name = ''D'', row2_roles = [''SUPERVISOR''], row2_relevant_theses = 6,
     row2_sample_theses = [''T1'', ''T2'']\<rparr>"
  let ?e1 = "\<lparr>name = Some ''B'', orcid_id = Some (Some ''0000-0002-1825-0097''),
     relevant_publications = Some 3, sample_publications = Some [''P1'', ''P2''],
     organizations = Some [''Chalmers''], departments = Some [''CSE''],
     source = Some ''database_1'', roles = None, relevant_theses = None,
     sample_theses = None, thesis_roles = None, combined_score = Some (PyInt 3)\<rparr>"
  let ?e2 = "\<lparr>name = Some ''D'', orcid_id = None, relevant_publications = None,
     sample_publications = None, organizations = None, departments = None,
     source = Some ''database_2'', roles = Some [''SUPERVISOR''], relevant_theses = Some 6,
     sample_theses = Some [''T1'', ''T2''], thesis_roles = None,
     combined_score = Some (PyFloat 3)\<rparr>"
  have h1: "filter (\<lambda>r. row1_name r = ''B'') [?b] \<noteq> []"
    and h2: "filter (\<lambda>r. row2_name r = ''B'') [?d] = []"
    and h3: "filter (\<lambda>r. row1_name r = ''D'') [?b] = []"
    and h4: "filter (\<lambda>r. row2_name r = ''D'') [?d] = ?d # []"
    and h5: "?b = last (filter (\<lambda>r. row1_name r = ''B'') [?b])"
    by simp_all
  have ev: "merge_expert_results (map db1_expert [?b]) (map db2_expert [?d]) = Inr [?e1, ?e2]"
    by (simp add: merge_eval)
  have s1: "(db1_expert ?b)\<lparr>combined_score := Some (PyInt (row1_relevant_pubs ?b))\<rparr> = ?e1"
    by (simp add: db1_expert_def empty_dict_def)
  have s2: "(db2_expert ?d)
      \<lparr>combined_score := Some (PyFloat ((1 / 2) * of_int (row2_relevant_theses ?d)))\<rparr> = ?e2"
    by (simp add: db2_expert_def empty_dict_def)
  from merge_never_raises [of "[?b]" "[?d]"]
  obtain out where out: "merge_expert_results (map db1_expert [?b]) (map db2_expert [?d]) = Inr out"
    and only1: "\<forall>n r1.
         filter (\<lambda>r. row1_name r = n) [?b] \<noteq> [] \<and> filter (\<lambda>r. row2_name r = n) [?d] = [] \<and>
         r1 = last (filter (\<lambda>r. row1_name r = n) [?b]) \<longrightarrow>
           filter (\<lambda>v. name v = Some n) out =
             [(db1_expert r1)\<lparr>combined_score := Some (PyInt (row1_relevant_pubs r1))\<rparr>]"
    and only2: "\<forall>n r2 rs.
         filter (\<lambda>r. row1_name r = n) [?b] = [] \<and> filter (\<lambda>r. row2_name r = n) [?d] = r2 # rs \<longrightarrow>
           (\<exists>e. filter (\<lambda>v. name v = Some n) out = [e] \<and>
              name e = Some n \<and> roles e = Some (row2_roles r2) \<and>
              relevant_theses e = Some (row2_relevant_theses (last (r2 # rs))) \<and>
              sample_theses e = Some (row2_sample_theses (last (r2 # rs))) \<and>
              orcid_id e = None \<and> relevant_publications e = None \<and>
              sample_publications e = None \<and> organizations e = None \<and> departments e = None \<and>
              (rs = [] \<longrightarrow>
                 e = (db2_expert r2)
                       \<lparr>combined_score :=
                          Some (PyFloat ((1 / 2) * of_int (row2_relevant_theses r2)))\<rparr>))"
    by (elim conjE exE) blast
  from only1 h1 h2 h5 have f1: "filter (\<lambda>v. name v = Some ''B'') out =
      [(db1_expert ?b)\<lparr>combined_score := Some (PyInt (row1_relevant_pubs ?b))\<rparr>]"
    by blast
  from only2 h3 h4 have f2: "filter (\<lambda>v. name v = Some ''D'') out =
      [(db2_expert ?d)
        \<lparr>combined_score := Some (PyFloat ((1 / 2) * of_int (row2_relevant_theses ?d)))\<rparr>]"
    by blast
  show ?thesis
    using h1 h2 h3 ev out f1 f2 unfolding s1 s2 by blast
qed

subsection \<open>C6\<close>

text \<open>
  Claim C6: for every name for which both graph adapters return empty lists,
  \<^verbatim>\<open>lookup_person\<close> returns a result with \<^verbatim>\<open>found_in_db1\<close> and \<^verbatim>\<open>found_in_db2\<close>
  false and \<^verbatim>\<open>ai_analysis\<close> equal to the fixed not-found message, and makes no call
  to the LLM endpoint: the list of requests sent comes back as it went in.
\<close>

theorem lookup_person_not_found:
  assumes "get_researcher_profile_db1 self qname = Inr []"
    and "get_thesis_activities_db2 self qname = Inr []"
  shows "lookup_person self sent qname =
           Inr (\<lparr>query_name = qname, found_in_db1 = False, found_in_db2 = False,
                 researcher_data = [], thesis_data = [],
                 ai_analysis = Some ''Person not found in either database''\<rparr>, sent)"
  using assms by (simp add: lookup_person_def combined_person_data_def)

text \<open>A book whose databases know nobody called Nobody.\<close>

theorem lookup_person_not_found_witness:
  "get_researcher_profile_db1 (demo_book (\<lambda>request. Request_failed ''unreachable'')) ''Nobody'' = Inr [] \<and>
   get_thesis_activities_db2 (demo_book (\<lambda>request. Request_failed ''unreachable'')) ''Nobody'' = Inr [] \<and>
   lookup_person (demo_book (\<lambda>request. Request_failed ''unreachable'')) [] ''Nobody'' =
     Inr (\<lparr>query_name = ''Nobody'', found_in_db1 = False, found_in_db2 = False,
           researcher_data = [], thesis_data = [],
           ai_analysis = Some ''Person not found in either database''\<rparr>, [])"
proof -
  let ?book = "demo_book (\<lambda>request. Request_failed ''unreachable'')"
  have h1: "get_researcher_profile_db1 ?book ''Nobody'' = Inr []"
    by (simp add: get_researcher_profile_db1_def demo_book_def)
  have h2: "get_thesis_activities_db2 ?book ''Nobody'' = Inr []"
    by (simp add: get_thesis_activities_db2_def demo_book_def)
  show ?thesis
    using lookup_person_not_found [OF h1 h2, of "[]"] h1 h2 by blast
qed

subsection \<open>C7\<close>

text \<open>
  Claim C7: for every prompt, when the LLM HTTP call returns a non-success status or a
  transport or parse failure occurs, \<^verbatim>\<open>ai_query\<close> returns a clearly tagged error
  string rather than raising, and \<^verbatim>\<open>lookup_person\<close> consequently still returns its
  populated \<^verbatim>\<open>researcher_data\<close> and \<^verbatim>\<open>thesis_data\<close> with \<^verbatim>\<open>ai_analysis\<close> set to that
  tagged error string.

  \<open>ai_failure\<close> holds of a raised request, of a response whose body cannot be read,
  and of a readable response with any status other than 200 (so of every non-success
  status); a tagged string is one that starts with \<^verbatim>\<open>AI Error: \<close>.
\<close>

theorem ai_failure_is_tagged:
  "(ai_failure (llm_post self (ai_request self prompt max_tokens)) \<longrightarrow>
      tagged_error (fst (ai_query self sent prompt max_tokens))) \<and>
   (get_researcher_profile_db1 self qname = Inr profiles \<and>
    get_thesis_activities_db2 self qname = Inr activities \<and>
    (profiles \<noteq> [] \<or> activities \<noteq> []) \<and>
    ai_failure (llm_post self (ai_request self
      (create_person_analysis_prompt self (combined_person_data qname profiles activities)) 1000))
    \<longrightarrow>
      (\<exists>res sent' s.
         lookup_person self sent qname = Inr (res, sent') \<and>
         researcher_data res = profiles \<and> thesis_data res = activities \<and>
         ai_analysis res = Some s \<and> tagged_error s \<and>
         s = fst (ai_query self sent
               (create_person_analysis_prompt self (combined_person_data qname profiles activities))
               1000)))"
proof (intro conjI impI)
  assume "ai_failure (llm_post self (ai_request self prompt max_tokens))"
  then show "tagged_error (fst (ai_query self sent prompt max_tokens))"
    by (rule ai_query_failure)
next
  let ?prompt = "create_person_analysis_prompt self (combined_person_data qname profiles activities)"
  assume h: "get_researcher_profile_db1 self qname = Inr profiles \<and>
    get_thesis_activities_db2 self qname = Inr activities \<and>
    (profiles \<noteq> [] \<or> activities \<noteq> []) \<and>
    ai_failure (llm_post self (ai_request self ?prompt 1000))"
  then have tagged: "tagged_error (fst (ai_query self sent ?prompt 1000))"
    by (simp add: ai_query_failure)
  from h have found: "found_in_db1 (combined_person_data qname profiles activities) \<or>
      found_in_db2 (combined_person_data qname profiles activities)"
    by (auto simp: combined_person_data_def)
  have "lookup_person self sent qname =
      Inr ((combined_person_data qname profiles activities)
             \<lparr>ai_analysis := Some (fst (ai_query self sent ?prompt 1000))\<rparr>,
           snd (ai_query self sent ?prompt 1000))"
    using h found by (simp add: lookup_person_def Let_def)
  moreover have "researcher_data ((combined_person_data qname profiles activities)
             \<lparr>ai_analysis := Some (fst (ai_query self sent ?prompt 1000))\<rparr>) = profiles"
    and "thesis_data ((combined_person_data qname profiles activities)
             \<lparr>ai_analysis := Some (fst (ai_query self sent ?prompt 1000))\<rparr>) = activities"
    by (simp_all add: combined_person_data_def)
  ultimately show "\<exists>res sent' s.
         lookup_person self sent qname = Inr (res, sent') \<and>
         researcher_data res = profiles \<and> thesis_data res = activities \<and>
         ai_analysis res = Some s \<and> tagged_error s \<and>
         s = fst (ai_query self sent ?prompt 1000)"
    using tagged by simp
qed

text \<open>The spec's scenario: the endpoint answers HTTP 500 while database 1 knows Anders.\<close>

theorem ai_failure_is_tagged_witness:
  "ai_failure (llm_post (demo_book (\<lambda>request. Http_response 500 (Content '''')))
     (ai_request (demo_book (\<lambda>request. Http_response 500 (Content '''')))
        (create_person_analysis_prompt (demo_book (\<lambda>request. Http_response 500 (Content '''')))
           (combined_person_data ''Anders'' [researcher_profile anders_row] [])) 1000)) \<and>
   get_researcher_profile_db1 (demo_book (\<lambda>request. Http_response 500 (Content ''''))) ''Anders'' =
     Inr [researcher_profile anders_row] \<and>
   get_thesis_activities_db2 (demo_book (\<lambda>request. Http_response 500 (Content ''''))) ''Anders'' =
     Inr [] \<and>
   fst (ai_query (demo_book (\<lambda>request. Http_response 500 (Content ''''))) []
          (create_person_analysis_prompt (demo_book (\<lambda>request. Http_response 500 (Content '''')))
             (combined_person_data ''Anders'' [researcher_profile anders_row] [])) 1000) =
     ''AI Error: 500'' \<and>
   tagged_error ''AI Error: 500'' \<and>
   (\<exists>res sent'.
      lookup_person (demo_book (\<lambda>request. Http_response 500 (Content ''''))) [] ''Anders'' =
        Inr (res, sent') \<and>
      researcher_data res = [researcher_profile anders_row] \<and> thesis_data res = [] \<and>
      ai_analysis res = Some ''AI Error: 500'')"
proof -
  let ?book = "demo_book (\<lambda>request. Http_response 500 (Content ''''))"
  let ?prompt = "create_person_analysis_prompt ?book
      (combined_person_data ''Anders'' [researcher_profile anders_row] [])"
  have fail: "ai_failure (llm_post ?book (ai_request ?book ?prompt 1000))"
    by (simp add: demo_book_def)
  have db1: "get_researcher_profile_db1 ?book ''Anders'' = Inr [researcher_profile anders_row]"
    by (simp add: get_researcher_profile_db1_def demo_book_def)
  have db2: "get_thesis_activities_db2 ?book ''Anders'' = Inr []"
    by (simp add: get_thesis_activities_db2_def demo_book_def)
  have msg: "fst (ai_query ?book [] ?prompt 1000) = ''AI Error: 500''"
    by (simp add: ai_query_def Let_def demo_book_def str_int_def digit_char_def)
  note inst = ai_failure_is_tagged
    [where self = ?book and prompt = ?prompt and max_tokens = 1000 and sent = "[]"
       and qname = "''Anders''" and profiles = "[researcher_profile anders_row]"
       and activities = "[]"]
  have ne: "[researcher_profile anders_row] \<noteq> [] \<or> ([] :: activity list) \<noteq> []"
    by simp
  have tagged: "tagged_error (fst (ai_query ?book [] ?prompt 1000))"
    using inst fail by blast
  have look: "\<exists>res sent' s.
         lookup_person ?book [] ''Anders'' = Inr (res, sent') \<and>
         researcher_data res = [researcher_profile anders_row] \<and> thesis_data res = [] \<and>
         ai_analysis res = Some s \<and> tagged_error s \<and>
         s = fst (ai_query ?book [] ?prompt 1000)"
    using inst fail db1 db2 ne by blast
  from tagged msg have t: "tagged_error ''AI Error: 500''" by simp
  from look msg have "\<exists>res sent'.
      lookup_person ?book [] ''Anders'' = Inr (res, sent') \<and>
      researcher_data res = [researcher_profile anders_row] \<and> thesis_data res = [] \<and>
      ai_analysis res = Some ''AI Error: 500''"
    by auto
  with fail db1 db2 msg t show ?thesis by blast
qed

subsection \<open>C8\<close>

text \<open>
  Claim C8: for every topic and limit, the result of \<^verbatim>\<open>find_expert\<close> contains the
  topic, \<^verbatim>\<open>experts_found\<close> equal to the length of the merged expert list,
  \<^verbatim>\<open>db1_matches\<close> and \<^verbatim>\<open>db2_matches\<close> equal to the lengths of the two search-result
  lists, the merged list itself, and the AI ranking text (the reply to the ranking
  prompt, or the fixed message when the merged list is empty). Whenever the two
  searches return, \<^verbatim>\<open>find_expert\<close> returns such a result.
\<close>

theorem find_expert_result:
  assumes "search_experts_db1 self topic_text limit = Inr db1_experts"
    and "search_experts_db2 self topic_text limit = Inr db2_experts"
  shows "\<exists>res sent' merged.
           find_expert self sent topic_text limit = Inr (res, sent') \<and>
           merge_expert_results db1_experts db2_experts = Inr merged \<and>
           topic res = topic_text \<and>
           experts_found res = length merged \<and>
           db1_matches res = length db1_experts \<and>
           db2_matches res = length db2_experts \<and>
           expert_list res = merged \<and>
           ai_ranking res =
             (if merged \<noteq> []
              then fst (ai_query self sent
                     (create_expert_ranking_prompt self topic_text merged) 1500)
              else ''No experts found for topic: '' @ topic_text)"
proof -
  from assms(1) obtain rows1 where d1: "db1_experts = map db1_expert rows1"
    by (auto simp: search_experts_db1_def split: sum.splits)
  from assms(2) obtain rows2 where d2: "db2_experts = map db2_expert rows2"
    by (auto simp: search_experts_db2_def split: sum.splits)
  obtain merged where m: "merge_expert_results db1_experts db2_experts = Inr merged"
    unfolding d1 d2 by (simp add: merge_expert_results_rows)
  show ?thesis
    using assms m by (simp add: find_expert_def Let_def)
qed

text \<open>One expert A in both databases, and an endpoint that answers.\<close>

theorem find_expert_result_witness:
  "search_experts_db1 (demo_book (\<lambda>request. Http_response 200 (Content ''1. A''))) ''graphs'' 10 =
     Inr [db1_expert (db1_row_of ''A'' 4)] \<and>
   search_experts_db2 (demo_book (\<lambda>request. Http_response 200 (Content ''1. A''))) ''graphs'' 10 =
     Inr [db2_expert (db2_row_of ''A'' 2)] \<and>
   (\<exists>res sent'.
      find_expert (demo_book (\<lambda>request. Http_response 200 (Content ''1. A''))) [] ''graphs'' 10 =
        Inr (res, sent') \<and>
      topic res = ''graphs'' \<and> experts_found res = 1 \<and> db1_matches res = 1 \<and>
      db2_matches res = 1 \<and>
      expert_list res =
        [(db1_expert (db1_row_of ''A'' 4))
           \<lparr>thesis_roles := Some [], relevant_theses := Some 2, sample_theses := Some [],
            combined_score := Some (PyFloat 5), source := Some ''both_databases''\<rparr>] \<and>
      ai_ranking res = ''1. A'')"
proof -
  let ?book = "demo_book (\<lambda>request. Http_response 200 (Content ''1. A''))"
  let ?e = "(db1_expert (db1_row_of ''A'' 4))
           \<lparr>thesis_roles := Some [], relevant_theses := Some 2, sample_theses := Some [],
            combined_score := Some (PyFloat 5), source := Some ''both_databases''\<rparr>"
  have s1: "search_experts_db1 ?book ''graphs'' 10 = Inr [db1_expert (db1_row_of ''A'' 4)]"
    by (simp add: search_experts_db1_def demo_book_def)
  have s2: "search_experts_db2 ?book ''graphs'' 10 = Inr [db2_expert (db2_row_of ''A'' 2)]"
    by (simp add: search_experts_db2_def demo_book_def)
  have ev: "merge_expert_results [db1_expert (db1_row_of ''A'' 4)] [db2_expert (db2_row_of ''A'' 2)] =
      Inr [?e]"
    by (simp add: merge_eval)
  have reply: "fst (ai_query ?book [] (create_expert_ranking_prompt ?book ''graphs'' [?e]) 1500) =
      ''1. A''"
    by (simp add: ai_query_def Let_def demo_book_def)
  from find_expert_result [OF s1 s2, of "[]"] ev
  obtain res sent' where r: "find_expert ?book [] ''graphs'' 10 = Inr (res, sent')"
    and f: "topic res = ''graphs''" "experts_found res = length [?e]"
      "db1_matches res = length [db1_expert (db1_row_of ''A'' (4::int)) :: string expert]"
      "db2_matches res = length [db2_expert (db2_row_of ''A'' (2::int)) :: string expert]"
      "expert_list res = [?e]"
      "ai_ranking res =
         fst (ai_query ?book [] (create_expert_ranking_prompt ?book ''graphs'' [?e]) 1500)"
    by auto
  from f reply have "topic res = ''graphs'' \<and> experts_found res = 1 \<and> db1_matches res = 1 \<and>
      db2_matches res = 1 \<and> expert_list res = [?e] \<and> ai_ranking res = ''1. A''"
    by simp
  with r s1 s2 show ?thesis by blast
qed

subsection \<open>C9\<close>

text \<open>
  Claim C9: in every result that \<^verbatim>\<open>lookup_person\<close> returns, \<^verbatim>\<open>found_in_db1\<close> is true
  if and only if \<^verbatim>\<open>researcher_data\<close> is a non-empty list, and \<^verbatim>\<open>found_in_db2\<close> is
  true if and only if \<^verbatim>\<open>thesis_data\<close> is a non-empty list.
\<close>

theorem lookup_person_found_flags:
  assumes "lookup_person self sent qname = Inr (res, sent')"
  shows "(found_in_db1 res \<longleftrightarrow> researcher_data res \<noteq> []) \<and>
         (found_in_db2 res \<longleftrightarrow> thesis_data res \<noteq> [])"
  using assms
  by (auto simp: lookup_person_def combined_person_data_def Let_def
      split: sum.splits if_splits)

text \<open>Anders is in database 1 and not in database 2.\<close>

theorem lookup_person_found_flags_witness:
  "found_in_db1 (fst (projr (lookup_person
      (demo_book (\<lambda>request. Http_response 200 (Content ''A profile.''))) [] ''Anders''))) \<and>
   researcher_data (fst (projr (lookup_person
      (demo_book (\<lambda>request. Http_response 200 (Content ''A profile.''))) [] ''Anders''))) =
     [researcher_profile anders_row] \<and>
   \<not> found_in_db2 (fst (projr (lookup_person
      (demo_book (\<lambda>request. Http_response 200 (Content ''A profile.''))) [] ''Anders''))) \<and>
   thesis_data (fst (projr (lookup_person
      (demo_book (\<lambda>request. Http_response 200 (Content ''A profile.''))) [] ''Anders''))) = []"
proof -
  let ?r = "lookup_person
      (demo_book (\<lambda>request. Http_response 200 (Content ''A profile.''))) [] ''Anders''"
  have ret: "?r = Inr (fst (projr ?r), snd (projr ?r))"
    by (simp add: lookup_person_def get_researcher_profile_db1_def
        get_thesis_activities_db2_def demo_book_def combined_person_data_def Let_def)
  have data: "researcher_data (fst (projr ?r)) = [researcher_profile anders_row]"
    "thesis_data (fst (projr ?r)) = []"
    by (simp_all add: lookup_person_def get_researcher_profile_db1_def
        get_thesis_activities_db2_def demo_book_def combined_person_data_def Let_def)
  show ?thesis
    using lookup_person_found_flags [OF ret] data by simp
qed

end
